theory Spec2Isabelle
  imports Complex_Main
begin

section \<open>JavaScript strings and values\<close>

text \<open>
  A JavaScript string is modelled as the list of its code points (natural numbers); the
  helper \<open>js\<close> turns an ASCII literal of the source into that representation.
  \<open>String.prototype.trim\<close> removes the ECMAScript white space and line terminator code
  points from both ends. \<open>String.prototype.toUpperCase\<close> maps every code point on its own:
  the ASCII letters are shifted, and the Unicode case table for the code points from 128 on
  is the parameter \<open>U\<close>.
\<close>

type_synonym jsstring = "nat list"

definition js :: "string \<Rightarrow> jsstring" where
  "js s = map of_char s"

definition is_js_whitespace :: "nat \<Rightarrow> bool" where
  "is_js_whitespace c \<longleftrightarrow>
     c = 9 \<or> c = 10 \<or> c = 11 \<or> c = 12 \<or> c = 13 \<or> c = 32 \<or> c = 160 \<or> c = 5760 \<or>
     (8192 \<le> c \<and> c \<le> 8202) \<or> c = 8232 \<or> c = 8233 \<or> c = 8239 \<or> c = 8287 \<or>
     c = 12288 \<or> c = 65279"

definition trim :: "jsstring \<Rightarrow> jsstring" where
  "trim s = rev (dropWhile is_js_whitespace (rev (dropWhile is_js_whitespace s)))"

definition toUpperCase :: "(nat \<Rightarrow> nat list) \<Rightarrow> jsstring \<Rightarrow> jsstring" where
  "toUpperCase U s =
     concat (map (\<lambda>c. if c < 128 then [if 97 \<le> c \<and> c \<le> 122 then c - 32 else c] else U c) s)"

text \<open>
  The values a parsed JSON body can hold, and \<open>undefined\<close> for a property that is absent.
  An object is the association list of its own properties.
\<close>

datatype jsnumber = NaN | PosInfinity | NegInfinity | Finite rat

datatype jsval =
    JUndefined
  | JNull
  | JBool bool
  | JNum jsnumber
  | JStr jsstring
  | JArr "jsval list"
  | JObj "(jsstring \<times> jsval) list"

text \<open>Truthiness, as \<open>!v\<close>, \<open>v || w\<close> and \<open>if (v)\<close> test it.\<close>

fun truthy :: "jsval \<Rightarrow> bool" where
  "truthy JUndefined = False"
| "truthy JNull = False"
| "truthy (JBool b) = b"
| "truthy (JNum n) = (n \<noteq> NaN \<and> n \<noteq> Finite 0)"
| "truthy (JStr s) = (s \<noteq> [])"
| "truthy (JArr xs) = True"
| "truthy (JObj kvs) = True"

text \<open>
  The property read \<open>v.k\<close> for a key \<open>k\<close> that no built-in prototype defines (the source
  reads \<open>detail\<close> and \<open>plan\<close>): it throws a TypeError on \<open>null\<close> and \<open>undefined\<close>
  (the result \<open>None\<close>), looks the key up in an object, and is \<open>undefined\<close> otherwise.
\<close>

fun get_prop :: "jsval \<Rightarrow> jsstring \<Rightarrow> jsval option" where
  "get_prop JUndefined k = None"
| "get_prop JNull k = None"
| "get_prop (JObj kvs) k = (case map_of kvs k of Some v \<Rightarrow> Some v | None \<Rightarrow> Some JUndefined)"
| "get_prop v k = Some JUndefined"

section \<open>The HTTP boundary\<close>

text \<open>
  What \<open>fetch\<close> settles to: the promise is rejected (no response at all), or it resolves
  to a response with a status and a body. The body is given as what \<open>res.json()\<close> yields:
  \<open>None\<close> when the body is not JSON and \<open>res.json()\<close> rejects. \<open>res.ok\<close> is true for
  the statuses 200 to 299.
\<close>

datatype 'a fetch_result = Rejected | Response nat "'a option"

definition ok :: "nat \<Rightarrow> bool" where
  "ok status \<longleftrightarrow> 200 \<le> status \<and> status \<le> 299"

datatype fetch_error = NetworkFailure | ApiError nat | InvalidJson

text \<open>
  \<open>fetchJSON\<close> (lib/api): the error thrown, or the parsed body.
\<close>

fun fetchJSON :: "'a fetch_result \<Rightarrow> fetch_error + 'a" where
  "fetchJSON Rejected = Inl NetworkFailure"
| "fetchJSON (Response status body) =
     (if \<not> ok status then Inl (ApiError status)
      else case body of None \<Rightarrow> Inl InvalidJson | Some v \<Rightarrow> Inr v)"

text \<open>The lines written by \<open>console.error\<close>: the message and the error caught.\<close>

type_synonym console = "(string \<times> fetch_error) list"

section \<open>Signal entries and the signals hook\<close>

text \<open>
  A signal entry is an object of the parsed response. \<open>ref\<close> is the identity of the
  object (what \<open>===\<close> and \<open>indexOf\<close> compare), \<open>entry_id\<close> its \<open>id\<close> field and
  \<open>signal\<close> its \<open>signal\<close> field; the other fields are only displayed.
\<close>

record 'i signal_entry =
  ref :: nat
  entry_id :: 'i
  signal :: jsstring

record 'i signals_state =
  signals :: "'i signal_entry list"
  sigLoading :: bool
  lastFetched :: "nat option"
  newId :: "'i option"

definition useSignals_init :: "'i signals_state" where
  "useSignals_init = \<lparr>signals = [], sigLoading = True, lastFetched = None, newId = None\<rparr>"

text \<open>
  The detection inside the updater of \<open>setSignals\<close>:
  \<open>data.find(s => !prevIds.has(s.id))\<close> with \<open>prevIds\<close> the set of the ids of \<open>prev\<close>.
\<close>

definition newest :: "'i signal_entry list \<Rightarrow> 'i signal_entry list \<Rightarrow> 'i signal_entry option" where
  "newest prev data = find (\<lambda>s. entry_id s \<notin> set (map entry_id prev)) data"

text \<open>
  \<open>useSignals.load\<close> from the point where the request settles: \<open>now\<close> is the value of
  \<open>new Date()\<close>, \<open>r\<close> what \<open>fetch\<close> settled to.
\<close>

definition useSignals_load ::
  "nat \<Rightarrow> 'i signal_entry list fetch_result \<Rightarrow> console \<times> 'i signals_state
     \<Rightarrow> console \<times> 'i signals_state" where
  "useSignals_load now r cs =
     (case cs of (con, st) \<Rightarrow>
        (case fetchJSON r of
           Inr data \<Rightarrow>
             (con,
              st\<lparr>signals := data,
                 newId := (case newest (signals st) data of
                             Some s \<Rightarrow> Some (entry_id s)
                           | None \<Rightarrow> newId st),
                 lastFetched := Some now,
                 sigLoading := False\<rparr>)
         | Inl e \<Rightarrow>
             (con @ [(''Failed to fetch signals:'', e)], st\<lparr>sigLoading := False\<rparr>)))"

section \<open>The access gate of the signals view\<close>

text \<open>
  \<open>signals.indexOf(s)\<close>: the first index whose element is the object \<open>s\<close>, or \<open>-1\<close>.
\<close>

fun indexOf :: "'i signal_entry list \<Rightarrow> 'i signal_entry \<Rightarrow> int" where
  "indexOf [] s = -1"
| "indexOf (x # xs) s =
     (if ref x = ref s then 0
      else (let k = indexOf xs s in if k < 0 then -1 else k + 1))"

definition filtered :: "jsstring \<Rightarrow> 'i signal_entry list \<Rightarrow> 'i signal_entry list" where
  "filtered flt sigs = (if flt = js ''ALL'' then sigs else filter (\<lambda>s. signal s = flt) sigs)"

definition isLocked :: "jsval \<Rightarrow> 'i signal_entry list \<Rightarrow> 'i signal_entry \<Rightarrow> bool" where
  "isLocked plan sigs s \<longleftrightarrow> plan = JStr (js ''FREE'') \<and> indexOf sigs s \<ge> 3"

text \<open>
  What \<open>filtered.map\<close> renders for an entry: the blurred placeholder, or the signal card
  with its \<open>isNew\<close> flag.
\<close>

datatype 'i card = LockedPlaceholder "'i signal_entry" | SignalCard "'i signal_entry" bool

fun obscured :: "'i card \<Rightarrow> bool" where
  "obscured (LockedPlaceholder s) = True"
| "obscured (SignalCard s isNew) = False"

definition render_signals ::
  "jsval \<Rightarrow> jsstring \<Rightarrow> 'i signal_entry list \<Rightarrow> 'i option \<Rightarrow> 'i card list" where
  "render_signals plan flt sigs nid =
     map (\<lambda>item. if isLocked plan sigs item then LockedPlaceholder item
                 else SignalCard item (Some (entry_id item) = nid))
       (filtered flt sigs)"

section \<open>Runs of attempts of the signals hook\<close>

text \<open>
  Every attempt of \<open>load\<close> settles at some time with some outcome of its request; a run
  applies the attempts in the order in which they settle.
\<close>

definition useSignals_attempts ::
  "(nat \<times> 'i signal_entry list fetch_result) list \<Rightarrow> console \<times> 'i signals_state
     \<Rightarrow> console \<times> 'i signals_state" where
  "useSignals_attempts as cs = foldl (\<lambda>c a. useSignals_load (fst a) (snd a) c) cs as"

text \<open>
  The payload of the last request of a list that succeeded, if any: the reference value the
  held result of a hook is compared with.
\<close>

fun last_success :: "'a fetch_result list \<Rightarrow> 'a option" where
  "last_success [] = None"
| "last_success (r # rs) =
     (case last_success rs of
        Some d \<Rightarrow> Some d
      | None \<Rightarrow> (case fetchJSON r of Inr d \<Rightarrow> Some d | Inl e \<Rightarrow> None))"

section \<open>The markets, chart data and watchlist hooks\<close>

text \<open>
  The three other hooks hold the payload as it was fetched and never look into it, so its
  type is a parameter. Each record is the state of one hook; the loading flags carry the
  hook's name since the records live side by side.
\<close>

record 'm markets_state =
  markets :: 'm
  marketsLoading :: bool

definition useMarkets_load ::
  "'m fetch_result \<Rightarrow> console \<times> 'm markets_state \<Rightarrow> console \<times> 'm markets_state" where
  "useMarkets_load r cs =
     (case cs of (con, st) \<Rightarrow>
        (case fetchJSON r of
           Inr data \<Rightarrow> (con, st\<lparr>markets := data, marketsLoading := False\<rparr>)
         | Inl e \<Rightarrow>
             (con @ [(''Failed to fetch markets:'', e)], st\<lparr>marketsLoading := False\<rparr>)))"

definition useMarkets_attempts ::
  "'m fetch_result list \<Rightarrow> console \<times> 'm markets_state \<Rightarrow> console \<times> 'm markets_state" where
  "useMarkets_attempts rs cs = foldl (\<lambda>c r. useMarkets_load r c) cs rs"

record 'c chart_state =
  chartData :: "'c list"
  chartLoading :: bool

definition useChartData_init :: "'c chart_state" where
  "useChartData_init = \<lparr>chartData = [], chartLoading = True\<rparr>"

definition useChartData_load ::
  "'c list fetch_result \<Rightarrow> console \<times> 'c chart_state \<Rightarrow> console \<times> 'c chart_state" where
  "useChartData_load r cs =
     (case cs of (con, st) \<Rightarrow>
        (case fetchJSON r of
           Inr data \<Rightarrow> (con, st\<lparr>chartData := data, chartLoading := False\<rparr>)
         | Inl e \<Rightarrow>
             (con @ [(''Failed to fetch chart data:'', e)], st\<lparr>chartLoading := False\<rparr>)))"

definition useChartData_attempts ::
  "'c list fetch_result list \<Rightarrow> console \<times> 'c chart_state \<Rightarrow> console \<times> 'c chart_state" where
  "useChartData_attempts rs cs = foldl (\<lambda>c r. useChartData_load r c) cs rs"

record 'w watchlist_state =
  watchlist :: "'w list"
  watchlistLoading :: bool

definition useWatchlist_init :: "'w watchlist_state" where
  "useWatchlist_init = \<lparr>watchlist = [], watchlistLoading = True\<rparr>"

definition useWatchlist_load ::
  "'w list fetch_result \<Rightarrow> console \<times> 'w watchlist_state \<Rightarrow> console \<times> 'w watchlist_state" where
  "useWatchlist_load r cs =
     (case cs of (con, st) \<Rightarrow>
        (case fetchJSON r of
           Inr data \<Rightarrow> (con, st\<lparr>watchlist := data, watchlistLoading := False\<rparr>)
         | Inl e \<Rightarrow>
             (con @ [(''Failed to fetch watchlist:'', e)], st\<lparr>watchlistLoading := False\<rparr>)))"

definition useWatchlist_attempts ::
  "'w list fetch_result list \<Rightarrow> console \<times> 'w watchlist_state
     \<Rightarrow> console \<times> 'w watchlist_state" where
  "useWatchlist_attempts rs cs = foldl (\<lambda>c r. useWatchlist_load r c) cs rs"

section \<open>Watchlist mutations\<close>

text \<open>
  A request as it is issued: method, path and body. The body is the object handed to
  \<open>JSON.stringify\<close>, or \<open>undefined\<close> when the request has none.
\<close>

datatype request = Request jsstring jsstring jsval

text \<open>
  \<open>addTicker\<close> and \<open>removeTicker\<close>: \<open>m\<close> is what the mutation request settles to and
  \<open>reload\<close> what the request of the following \<open>load()\<close> settles to, if it is made. The
  result lists the requests issued, in order.
\<close>

definition addTicker ::
  "jsstring \<Rightarrow> jsstring \<Rightarrow> jsval fetch_result \<Rightarrow> 'w list fetch_result
     \<Rightarrow> console \<times> 'w watchlist_state \<Rightarrow> request list \<times> console \<times> 'w watchlist_state" where
  "addTicker ticker name m reload cs =
     (let req = Request (js ''POST'') (js ''/api/watchlist'')
                  (JObj [(js ''ticker'', JStr ticker), (js ''name'', JStr name)])
      in case fetchJSON m of
           Inr v \<Rightarrow>
             ([req, Request (js ''GET'') (js ''/api/watchlist'') JUndefined],
              useWatchlist_load reload cs)
         | Inl e \<Rightarrow> ([req], (fst cs @ [(''Failed to add ticker:'', e)], snd cs)))"

definition removeTicker ::
  "jsstring \<Rightarrow> jsval fetch_result \<Rightarrow> 'w list fetch_result
     \<Rightarrow> console \<times> 'w watchlist_state \<Rightarrow> request list \<times> console \<times> 'w watchlist_state" where
  "removeTicker ticker m reload cs =
     (let req = Request (js ''DELETE'') (js ''/api/watchlist/'' @ ticker) JUndefined
      in case fetchJSON m of
           Inr v \<Rightarrow>
             ([req, Request (js ''GET'') (js ''/api/watchlist'') JUndefined],
              useWatchlist_load reload cs)
         | Inl e \<Rightarrow> ([req], (fst cs @ [(''Failed to remove ticker:'', e)], snd cs)))"

text \<open>
  The operations on the watchlist store, each with the outcomes of its requests, and a
  run of them. \<open>loads_made\<close> lists the outcomes of the list requests that were really made:
  a mutation reloads only when its own request succeeded.
\<close>

datatype 'w watchlist_op =
    Load "'w list fetch_result"
  | Add jsstring jsstring "jsval fetch_result" "'w list fetch_result"
  | Remove jsstring "jsval fetch_result" "'w list fetch_result"

fun watchlist_apply ::
  "console \<times> 'w watchlist_state \<Rightarrow> 'w watchlist_op \<Rightarrow> console \<times> 'w watchlist_state" where
  "watchlist_apply cs (Load r) = useWatchlist_load r cs"
| "watchlist_apply cs (Add ticker name m reload) = snd (addTicker ticker name m reload cs)"
| "watchlist_apply cs (Remove ticker m reload) = snd (removeTicker ticker m reload cs)"

definition watchlist_run ::
  "'w watchlist_op list \<Rightarrow> console \<times> 'w watchlist_state \<Rightarrow> console \<times> 'w watchlist_state" where
  "watchlist_run ops cs = foldl watchlist_apply cs ops"

fun loads_made :: "'w watchlist_op list \<Rightarrow> 'w list fetch_result list" where
  "loads_made [] = []"
| "loads_made (Load r # ops) = r # loads_made ops"
| "loads_made (Add ticker name m reload # ops) =
     (case fetchJSON m of Inr v \<Rightarrow> reload # loads_made ops | Inl e \<Rightarrow> loads_made ops)"
| "loads_made (Remove ticker m reload # ops) =
     (case fetchJSON m of Inr v \<Rightarrow> reload # loads_made ops | Inl e \<Rightarrow> loads_made ops)"

section \<open>The state of the page and the add-ticker handler\<close>

datatype beta_step = Pick | Form | Verify | Done

record app_state =
  plan :: jsval
  showUpgrade :: bool
  tickerInput :: jsstring
  betaStep :: beta_step
  betaChoice :: jsstring
  betaName :: jsstring
  betaEmail :: jsstring
  betaOtp :: jsstring
  betaSubmitting :: bool
  betaError :: jsval

definition FinSight_init :: app_state where
  "FinSight_init =
     \<lparr>plan = JStr (js ''FREE''), showUpgrade = False, tickerInput = [],
      betaStep = Pick, betaChoice = js ''PRO'', betaName = [], betaEmail = [], betaOtp = [],
      betaSubmitting = False, betaError = JStr []\<rparr>"

definition handleAddTicker ::
  "(nat \<Rightarrow> nat list) \<Rightarrow> jsval fetch_result \<Rightarrow> 'w list fetch_result
     \<Rightarrow> app_state \<times> console \<times> 'w watchlist_state
     \<Rightarrow> request list \<times> app_state \<times> console \<times> 'w watchlist_state" where
  "handleAddTicker U m reload scs =
     (case scs of (s, cs) \<Rightarrow>
        (let t = toUpperCase U (trim (tickerInput s)) in
         if t = [] then ([], s, cs)
         else (case addTicker t t m reload cs of
                 (reqs, cs') \<Rightarrow> (reqs, s\<lparr>tickerInput := []\<rparr>, cs'))))"

section \<open>The enrollment flow\<close>

text \<open>
  The steps are the strings \<open>pick\<close>, \<open>form\<close>, \<open>verify\<close> and \<open>done\<close> of the source.
  Choosing a plan on the first step stores the choice and moves to the form.
\<close>

definition choosePlan :: "jsstring \<Rightarrow> app_state \<Rightarrow> app_state" where
  "choosePlan p s = s\<lparr>betaChoice := p, betaStep := Form\<rparr>"

definition signup_request :: "app_state \<Rightarrow> request" where
  "signup_request s =
     Request (js ''POST'') (js ''/api/beta-signup'')
       (JObj [(js ''name'', JStr (trim (betaName s))),
              (js ''email'', JStr (trim (betaEmail s))),
              (js ''plan'', JStr (betaChoice s))])"

text \<open>
  \<open>handleBetaSubmit\<close>: \<open>net\<close> gives what the request settles to. The \<open>catch\<close> branch is
  reached when \<open>fetch\<close> rejects, when the error body is not JSON, and when the error body
  is \<open>null\<close>; the \<open>finally\<close> branch clears \<open>betaSubmitting\<close> once a request was made.
\<close>

definition handleBetaSubmit ::
  "(request \<Rightarrow> jsval fetch_result) \<Rightarrow> app_state \<Rightarrow> request list \<times> app_state" where
  "handleBetaSubmit net s =
     (if trim (betaName s) = [] \<or> trim (betaEmail s) = [] then
        ([], s\<lparr>betaError := JStr (js ''Please enter your name and email.'')\<rparr>)
      else
        (let s1 = s\<lparr>betaError := JStr [], betaSubmitting := True\<rparr>;
             s2 = (case net (signup_request s) of
                     Rejected \<Rightarrow> s1\<lparr>betaError := JStr (js ''Something went wrong. Please try again.'')\<rparr>
                   | Response status body \<Rightarrow>
                       if \<not> ok status then
                         (case body of
                            None \<Rightarrow> s1\<lparr>betaError := JStr (js ''Something went wrong. Please try again.'')\<rparr>
                          | Some err \<Rightarrow>
                              (case get_prop err (js ''detail'') of
                                 None \<Rightarrow> s1\<lparr>betaError := JStr (js ''Something went wrong. Please try again.'')\<rparr>
                               | Some d \<Rightarrow>
                                   s1\<lparr>betaError :=
                                        (if truthy d then d else JStr (js ''Something went wrong. Please try again.''))\<rparr>))
                       else s1\<lparr>betaOtp := [], betaStep := Verify\<rparr>)
         in ([signup_request s], s2\<lparr>betaSubmitting := False\<rparr>)))"

definition verify_request :: "app_state \<Rightarrow> request" where
  "verify_request s =
     Request (js ''POST'') (js ''/api/beta-verify'')
       (JObj [(js ''email'', JStr (trim (betaEmail s))),
              (js ''code'', JStr (trim (betaOtp s)))])"

definition handleBetaVerify ::
  "(request \<Rightarrow> jsval fetch_result) \<Rightarrow> app_state \<Rightarrow> request list \<times> app_state" where
  "handleBetaVerify net s =
     (if trim (betaOtp s) = [] then
        ([], s\<lparr>betaError := JStr (js ''Please enter the verification code.'')\<rparr>)
      else
        (let s1 = s\<lparr>betaError := JStr [], betaSubmitting := True\<rparr>;
             s2 = (case net (verify_request s) of
                     Rejected \<Rightarrow> s1\<lparr>betaError := JStr (js ''Something went wrong. Please try again.'')\<rparr>
                   | Response status body \<Rightarrow>
                       if \<not> ok status then
                         (case body of
                            None \<Rightarrow> s1\<lparr>betaError := JStr (js ''Something went wrong. Please try again.'')\<rparr>
                          | Some err \<Rightarrow>
                              (case get_prop err (js ''detail'') of
                                 None \<Rightarrow> s1\<lparr>betaError := JStr (js ''Something went wrong. Please try again.'')\<rparr>
                               | Some d \<Rightarrow>
                                   s1\<lparr>betaError :=
                                        (if truthy d then d
                                         else JStr (js ''Invalid code. Please try again.''))\<rparr>))
                       else
                         (case body of
                            None \<Rightarrow> s1\<lparr>betaError := JStr (js ''Something went wrong. Please try again.'')\<rparr>
                          | Some data \<Rightarrow>
                              (case get_prop data (js ''plan'') of
                                 None \<Rightarrow> s1\<lparr>betaError := JStr (js ''Something went wrong. Please try again.'')\<rparr>
                               | Some p \<Rightarrow> s1\<lparr>plan := p, betaStep := Done\<rparr>)))
         in ([verify_request s], s2\<lparr>betaSubmitting := False\<rparr>)))"

definition openUpgrade :: "app_state \<Rightarrow> app_state" where
  "openUpgrade s =
     s\<lparr>betaStep := Pick, betaName := [], betaEmail := [], betaOtp := [],
       betaError := JStr [], showUpgrade := True\<rparr>"

section \<open>The life cycle of a polling effect\<close>

text \<open>
  The effect of a polling hook calls \<open>load()\<close>, registers \<open>setInterval(load, pollMs)\<close>
  and returns the cleanup \<open>clearInterval(interval)\<close>; its dependencies are \<open>load\<close> and
  \<open>pollMs\<close>. The page never passes \<open>pollMs\<close>, and \<open>load\<close> is a \<open>useCallback\<close> over
  \<open>[plan]\<close> in the signals hook and over \<open>[]\<close> in the markets and chart hooks. So the
  dependency value \<open>deps\<close> of the effect is the plan for the signals hook and the unit
  value for the other two.

  React runs the effect after the mount; on a render with a changed dependency it runs the
  cleanup and then the effect again, the component staying mounted; on the unmount it runs
  the cleanup, and from then on a state update of the component is dropped.

  \<open>hook\<close> is the console together with the state of the hook, \<open>timer\<close> tells whether an
  interval is registered, \<open>generation\<close> numbers the runs of the effect (the poller
  instances), and \<open>inflight\<close> lists, by the generation that started them, the calls of
  \<open>load\<close> whose request has not settled yet. A tick of a cleared interval does nothing; a
  settling request runs the rest of \<open>load\<close>, the parameter \<open>ld\<close>, whose state updates
  take effect while the component is mounted.
\<close>

record ('s, 'd) poller =
  hook :: 's
  deps :: 'd
  mounted :: bool
  timer :: bool
  generation :: nat
  inflight :: "nat list"

datatype ('d, 'r) event = Mount | Rerender 'd | Tick | Settle nat 'r | Unmount

definition effect_run :: "('s, 'd) poller \<Rightarrow> ('s, 'd) poller" where
  "effect_run p =
     p\<lparr>generation := generation p + 1, inflight := inflight p @ [generation p + 1],
       timer := True\<rparr>"

definition effect_cleanup :: "('s, 'd) poller \<Rightarrow> ('s, 'd) poller" where
  "effect_cleanup p = p\<lparr>timer := False\<rparr>"

fun poller_step ::
  "('r \<Rightarrow> 's \<Rightarrow> 's) \<Rightarrow> ('s, 'd) poller \<Rightarrow> ('d, 'r) event \<Rightarrow> ('s, 'd) poller" where
  "poller_step ld p Mount =
     (if \<not> mounted p \<and> generation p = 0 then effect_run (p\<lparr>mounted := True\<rparr>) else p)"
| "poller_step ld p (Rerender d) =
     (if mounted p \<and> d \<noteq> deps p then effect_run (effect_cleanup (p\<lparr>deps := d\<rparr>)) else p)"
| "poller_step ld p Tick =
     (if timer p then p\<lparr>inflight := inflight p @ [generation p]\<rparr> else p)"
| "poller_step ld p (Settle g r) =
     (if g \<in> set (inflight p) then
        (if mounted p then p\<lparr>hook := ld r (hook p), inflight := remove1 g (inflight p)\<rparr>
         else p\<lparr>inflight := remove1 g (inflight p)\<rparr>)
      else p)"
| "poller_step ld p Unmount =
     (if mounted p then (effect_cleanup p)\<lparr>mounted := False\<rparr> else p)"





section \<open>Example data\<close>

text \<open>
  A feed of five entries, each a distinct object: the first and the last are BUY signals, the
  three between them SELL signals.
\<close>

definition ex_signals :: "nat signal_entry list" where
  "ex_signals =
     [\<lparr>ref = 0, entry_id = 1, signal = js ''BUY''\<rparr>,
      \<lparr>ref = 1, entry_id = 2, signal = js ''SELL''\<rparr>,
      \<lparr>ref = 2, entry_id = 3, signal = js ''SELL''\<rparr>,
      \<lparr>ref = 3, entry_id = 4, signal = js ''SELL''\<rparr>,
      \<lparr>ref = 4, entry_id = 5, signal = js ''BUY''\<rparr>]"

text \<open>
  A held feed with the ids 1, 2, 3, a fetched feed with the ids 4, 2, 3, 1 and a fetched
  feed with the ids 1, 2, 3; every fetch yields fresh objects.
\<close>

definition ex_prev :: "nat signal_entry list" where
  "ex_prev =
     [\<lparr>ref = 10, entry_id = 1, signal = js ''BUY''\<rparr>,
      \<lparr>ref = 11, entry_id = 2, signal = js ''SELL''\<rparr>,
      \<lparr>ref = 12, entry_id = 3, signal = js ''WATCH''\<rparr>]"

definition ex_new :: "nat signal_entry list" where
  "ex_new =
     [\<lparr>ref = 20, entry_id = 4, signal = js ''AVOID''\<rparr>,
      \<lparr>ref = 21, entry_id = 2, signal = js ''SELL''\<rparr>,
      \<lparr>ref = 22, entry_id = 3, signal = js ''WATCH''\<rparr>,
      \<lparr>ref = 23, entry_id = 1, signal = js ''BUY''\<rparr>]"

definition ex_same :: "nat signal_entry list" where
  "ex_same =
     [\<lparr>ref = 30, entry_id = 1, signal = js ''BUY''\<rparr>,
      \<lparr>ref = 31, entry_id = 2, signal = js ''SELL''\<rparr>,
      \<lparr>ref = 32, entry_id = 3, signal = js ''WATCH''\<rparr>]"

text \<open>
  An enrollment run: a server that accepts the signup and answers the verification with
  the plan PRO, a server that refuses both with a message, a server that cannot be reached,
  a server that fails without a message, and the states of a visitor who
  opens the dialog, picks ELITE, enters a name and an email, submits, enters a code and
  verifies.
\<close>

definition ex_net :: "request \<Rightarrow> jsval fetch_result" where
  "ex_net req =
     (case req of Request m path body \<Rightarrow>
        if path = js ''/api/beta-signup'' then Response 200 (Some (JObj []))
        else if path = js ''/api/beta-verify'' then
          Response 200 (Some (JObj [(js ''plan'', JStr (js ''PRO''))]))
        else Response 404 None)"

definition ex_net_failing :: "request \<Rightarrow> jsval fetch_result" where
  "ex_net_failing req =
     (case req of Request m path body \<Rightarrow>
        if path = js ''/api/beta-signup'' then
          Response 422 (Some (JObj [(js ''detail'', JStr (js ''Email already registered.''))]))
        else
          Response 400 (Some (JObj [(js ''detail'', JStr (js ''Invalid or expired code.''))])))"

definition ex_net_down :: "request \<Rightarrow> jsval fetch_result" where
  "ex_net_down req = Rejected"

definition ex_net_no_detail :: "request \<Rightarrow> jsval fetch_result" where
  "ex_net_no_detail req = Response 500 (Some (JObj []))"

definition ex_form :: app_state where
  "ex_form = (choosePlan (js ''ELITE'') (openUpgrade FinSight_init))
               \<lparr>betaName := js ''Ada'', betaEmail := js ''ada@example.com''\<rparr>"

definition ex_verify :: app_state where
  "ex_verify = (snd (handleBetaSubmit ex_net ex_form))\<lparr>betaOtp := js ''123456''\<rparr>"

definition ex_done :: app_state where
  "ex_done = snd (handleBetaVerify ex_net ex_verify)"

text \<open>
  A watchlist store holding two items, and the signals poller of a page with the plan FREE
  before the mount.
\<close>

definition ex_store :: "console \<times> nat watchlist_state" where
  "ex_store = ([], \<lparr>watchlist = [1, 2], watchlistLoading = False\<rparr>)"


section \<open>The access gate\<close>

text \<open>
  In a list of distinct objects \<open>indexOf\<close> of the element at index \<open>i\<close> is \<open>i\<close>.
\<close>

lemma indexOf_nth:
  "distinct (map ref sigs) \<Longrightarrow> i < length sigs \<Longrightarrow> indexOf sigs (sigs ! i) = int i"
proof (induction sigs arbitrary: i)
  case Nil
  then show ?case by simp
next
  case (Cons x xs)
  show ?case
  proof (cases i)
    case 0
    then show ?thesis by simp
  next
    case (Suc j)
    with Cons.prems have j: "j < length xs" and d: "distinct (map ref xs)"
      and nx: "ref x \<notin> ref ` set xs" by auto
    from j have "xs ! j \<in> set xs" by simp
    with nx have "ref x \<noteq> ref (xs ! j)" by auto
    moreover from Cons.IH [OF d j] have "indexOf xs (xs ! j) = int j" .
    ultimately show ?thesis using Suc by simp
  qed
qed

text \<open>
  The element at position \<open>p\<close> of a filtered list sits at some index \<open>i \<ge> p\<close> of the
  list that was filtered.
\<close>

lemma filter_nth_index:
  "p < length (filter P xs) \<Longrightarrow> \<exists>i. p \<le> i \<and> i < length xs \<and> xs ! i = filter P xs ! p"
proof (induction xs arbitrary: p)
  case Nil
  then show ?case by simp
next
  case (Cons x xs)
  show ?case
  proof (cases "P x")
    case True
    show ?thesis
    proof (cases p)
      case 0
      with True show ?thesis by auto
    next
      case (Suc q)
      with True Cons.prems have "q < length (filter P xs)" by simp
      from Cons.IH [OF this] obtain i where "q \<le> i" "i < length xs" "xs ! i = filter P xs ! q"
        by blast
      with True Suc
      have "p \<le> Suc i \<and> Suc i < length (x # xs) \<and> (x # xs) ! Suc i = filter P (x # xs) ! p"
        by simp
      then show ?thesis by blast
    qed
  next
    case False
    with Cons.prems have "p < length (filter P xs)" by simp
    from Cons.IH [OF this] obtain i where "p \<le> i" "i < length xs" "xs ! i = filter P xs ! p"
      by blast
    with False
    have "p \<le> Suc i \<and> Suc i < length (x # xs) \<and> (x # xs) ! Suc i = filter P (x # xs) ! p"
      by simp
    then show ?thesis by blast
  qed
qed

lemma filtered_nth_index:
  assumes "p < length (filtered flt sigs)"
  shows "\<exists>i. p \<le> i \<and> i < length sigs \<and> sigs ! i = filtered flt sigs ! p"
proof (cases "flt = js ''ALL''")
  case True
  with assms show ?thesis by (auto simp: filtered_def)
next
  case False
  with assms filter_nth_index [of p "\<lambda>s. signal s = flt" sigs] show ?thesis
    by (simp add: filtered_def)
qed

lemma obscured_render:
  "p < length (filtered flt sigs) \<Longrightarrow>
   obscured (render_signals tier flt sigs nid ! p) = isLocked tier sigs (filtered flt sigs ! p)"
  by (simp add: render_signals_def)

text \<open>
  Claim C1, as stated: the entry at position \<open>p\<close> of the filtered list is obscured if and
  only if the tier is FREE and \<open>p \<ge> 3\<close>. It fails: with the tier FREE and the filter BUY,
  the example feed shows two entries; the second one (position 1) is the fifth entry of the
  feed and is rendered as the locked placeholder.
\<close>

theorem access_gate_filtered_position_counterexample:
  "1 < length (filtered (js ''BUY'') ex_signals) \<and>
   \<not> (obscured (render_signals (JStr (js ''FREE'')) (js ''BUY'') ex_signals None ! 1) \<longleftrightarrow>
       JStr (js ''FREE'') = JStr (js ''FREE'') \<and> 3 \<le> (1::nat))"
  by (simp add: render_signals_def filtered_def isLocked_def ex_signals_def js_def)

text \<open>
  Claim C1, amended: an entry of the filtered list is obscured if and only if the tier is
  FREE and the index of the entry in the full, unfiltered feed is at least 3. Under the
  filter ALL that index is the position \<open>p\<close> itself; under any filter a position
  \<open>p \<ge> 3\<close> is obscured for the tier FREE; for any other tier no position is obscured.
  The entries of the feed are distinct objects.
\<close>

theorem access_gate_full_feed_position:
  assumes d: "distinct (map ref sigs)" and p: "p < length (filtered flt sigs)"
  shows "(\<exists>i<length sigs. sigs ! i = filtered flt sigs ! p) \<and>
         (\<forall>i<length sigs. sigs ! i = filtered flt sigs ! p \<longrightarrow>
            (obscured (render_signals tier flt sigs nid ! p) \<longleftrightarrow>
               tier = JStr (js ''FREE'') \<and> 3 \<le> i)) \<and>
         (flt = js ''ALL'' \<longrightarrow>
            (obscured (render_signals tier flt sigs nid ! p) \<longleftrightarrow>
               tier = JStr (js ''FREE'') \<and> 3 \<le> p)) \<and>
         (tier = JStr (js ''FREE'') \<and> 3 \<le> p \<longrightarrow>
            obscured (render_signals tier flt sigs nid ! p)) \<and>
         (tier \<noteq> JStr (js ''FREE'') \<longrightarrow>
            \<not> obscured (render_signals tier flt sigs nid ! p))"
proof -
  from filtered_nth_index [OF p] obtain k where k: "p \<le> k" "k < length sigs"
    "sigs ! k = filtered flt sigs ! p" by blast
  have lock: "obscured (render_signals tier flt sigs nid ! p) \<longleftrightarrow>
      tier = JStr (js ''FREE'') \<and> 3 \<le> i"
    if "i < length sigs" "sigs ! i = filtered flt sigs ! p" for i
  proof -
    from indexOf_nth [OF d that(1)] that(2)
    have "indexOf sigs (filtered flt sigs ! p) = int i" by simp
    then show ?thesis using p by (simp add: obscured_render isLocked_def)
  qed
  have c1: "\<exists>i<length sigs. sigs ! i = filtered flt sigs ! p" using k by blast
  have c2: "\<forall>i<length sigs. sigs ! i = filtered flt sigs ! p \<longrightarrow>
            (obscured (render_signals tier flt sigs nid ! p) \<longleftrightarrow>
               tier = JStr (js ''FREE'') \<and> 3 \<le> i)" using lock by blast
  have c3: "flt = js ''ALL'' \<longrightarrow>
            (obscured (render_signals tier flt sigs nid ! p) \<longleftrightarrow>
               tier = JStr (js ''FREE'') \<and> 3 \<le> p)"
  proof
    assume a: "flt = js ''ALL''"
    with p have "p < length sigs" "sigs ! p = filtered flt sigs ! p"
      by (simp_all add: filtered_def)
    then show "obscured (render_signals tier flt sigs nid ! p) \<longleftrightarrow>
               tier = JStr (js ''FREE'') \<and> 3 \<le> p" by (rule lock)
  qed
  have c4: "tier = JStr (js ''FREE'') \<and> 3 \<le> p \<longrightarrow>
            obscured (render_signals tier flt sigs nid ! p)"
    using lock [OF k(2) k(3)] k(1) by auto
  have c5: "tier \<noteq> JStr (js ''FREE'') \<longrightarrow>
            \<not> obscured (render_signals tier flt sigs nid ! p)"
    using lock [OF k(2) k(3)] by auto
  from c1 c2 c3 c4 c5 show ?thesis by blast
qed

theorem access_gate_full_feed_position_witness:
  "distinct (map ref ex_signals) \<and>
   1 < length (filtered (js ''BUY'') ex_signals) \<and>
   ex_signals ! 4 = filtered (js ''BUY'') ex_signals ! 1 \<and>
   obscured (render_signals (JStr (js ''FREE'')) (js ''BUY'') ex_signals None ! 1) \<and>
   \<not> obscured (render_signals (JStr (js ''PRO'')) (js ''BUY'') ex_signals None ! 1)"
proof -
  have d: "distinct (map ref ex_signals)" by (simp add: ex_signals_def)
  have p: "1 < length (filtered (js ''BUY'') ex_signals)"
    by (simp add: filtered_def ex_signals_def js_def)
  have e: "ex_signals ! 4 = filtered (js ''BUY'') ex_signals ! 1"
    by (simp add: filtered_def ex_signals_def js_def)
  have l: "(4::nat) < length ex_signals" by (simp add: ex_signals_def)
  from access_gate_full_feed_position [OF d p, of "JStr (js ''FREE'')" None] e l
  have o: "obscured (render_signals (JStr (js ''FREE'')) (js ''BUY'') ex_signals None ! 1)"
    by auto
  have "JStr (js ''PRO'') \<noteq> JStr (js ''FREE'')" by (simp add: js_def)
  with access_gate_full_feed_position [OF d p, of "JStr (js ''PRO'')" None]
  have n: "\<not> obscured (render_signals (JStr (js ''PRO'')) (js ''BUY'') ex_signals None ! 1)"
    by blast
  from d p e o n show ?thesis by blast
qed

section \<open>The feed synchronizer\<close>

lemma find_first:
  "i < length xs \<Longrightarrow> P (xs ! i) \<Longrightarrow> (\<And>j. j < i \<Longrightarrow> \<not> P (xs ! j)) \<Longrightarrow> find P xs = Some (xs ! i)"
proof (induction xs arbitrary: i)
  case Nil
  then show ?case by simp
next
  case (Cons x xs)
  show ?case
  proof (cases i)
    case 0
    with Cons.prems show ?thesis by simp
  next
    case (Suc k)
    with Cons.prems(3) [of 0] have nx: "\<not> P x" by simp
    have "find P xs = Some (xs ! k)"
    proof (rule Cons.IH)
      show "k < length xs" using Cons.prems(1) Suc by simp
      show "P (xs ! k)" using Cons.prems(2) Suc by simp
      show "\<not> P (xs ! j)" if "j < k" for j using Cons.prems(3) [of "Suc j"] that Suc by simp
    qed
    with nx Suc show ?thesis by simp
  qed
qed

lemma find_none: "(\<And>x. x \<in> set xs \<Longrightarrow> \<not> P x) \<Longrightarrow> find P xs = None"
  by (simp add: find_None_iff)

lemma useSignals_load_ok:
  "fetchJSON r = Inr data \<Longrightarrow>
   useSignals_load now r (con, st) =
     (con, st\<lparr>signals := data,
             newId := (case newest (signals st) data of
                         Some s \<Rightarrow> Some (entry_id s) | None \<Rightarrow> newId st),
             lastFetched := Some now, sigLoading := False\<rparr>)"
  by (simp add: useSignals_load_def)

lemma useSignals_load_failed:
  "fetchJSON r = Inl e \<Longrightarrow>
   useSignals_load now r (con, st) =
     (con @ [(''Failed to fetch signals:'', e)], st\<lparr>sigLoading := False\<rparr>)"
  by (simp add: useSignals_load_def)

lemma useSignals_attempts_snoc:
  "useSignals_attempts (as @ [a]) cs = useSignals_load (fst a) (snd a) (useSignals_attempts as cs)"
  by (simp add: useSignals_attempts_def)

lemma useSignals_load_snd:
  "snd (useSignals_load now r (c1, st)) = snd (useSignals_load now r (c2, st))"
  by (simp add: useSignals_load_def split: sum.splits)

text \<open>
  In every state the hook reaches from its initial state, a non-empty held feed comes with a
  flagged id: the first fetch that filled the feed flagged one, and no later attempt clears
  the flag.
\<close>

lemma useSignals_attempts_flagged:
  "signals (snd (useSignals_attempts as (con, useSignals_init))) \<noteq> [] \<Longrightarrow>
   newId (snd (useSignals_attempts as (con, useSignals_init))) \<noteq> None"
proof (induction as rule: rev_induct)
  case Nil
  then show ?case by (simp add: useSignals_attempts_def useSignals_init_def)
next
  case (snoc a as)
  obtain c st where cs: "useSignals_attempts as (con, useSignals_init) = (c, st)"
    by (cases "useSignals_attempts as (con, useSignals_init)")
  show ?case
  proof (cases "fetchJSON (snd a)")
    case (Inl e)
    with snoc cs show ?thesis
      by (simp add: useSignals_attempts_snoc useSignals_load_failed)
  next
    case (Inr data)
    from snoc.prems cs Inr have dn: "data \<noteq> []"
      by (simp add: useSignals_attempts_snoc useSignals_load_ok)
    show ?thesis
    proof (cases "newest (signals st) data")
      case (Some s)
      with cs Inr show ?thesis
        by (simp add: useSignals_attempts_snoc useSignals_load_ok)
    next
      case None
      then have all: "\<forall>s\<in>set data. entry_id s \<in> entry_id ` set (signals st)"
        by (auto simp: newest_def find_None_iff)
      from dn obtain x where "x \<in> set data" by (cases data) auto
      with all have "signals st \<noteq> []" by auto
      with snoc.IH cs have "newId st \<noteq> None" by simp
      with None cs Inr show ?thesis
        by (simp add: useSignals_attempts_snoc useSignals_load_ok)
    qed
  qed
qed

text \<open>
  Claim C2, as stated: with the previous ids 1, 2, 3 and the new sequence 1, 2, 3 no id is
  flagged after the refresh. It fails: the hook mounts, fetches the feed with the ids
  1, 2, 3 and then fetches a feed with the same ids; after the second refresh the id 1,
  flagged by the first one, is still the flagged id.
\<close>

theorem feed_sync_flags_no_id_counterexample:
  "entry_id ` set (signals (snd (useSignals_attempts [(1, Response 200 (Some ex_prev))]
       ([], useSignals_init)))) = {1, 2, 3} \<and>
   map entry_id ex_same = [1, 2, 3] \<and>
   newId (snd (useSignals_attempts
       [(1, Response 200 (Some ex_prev)), (2, Response 200 (Some ex_same))]
       ([], useSignals_init))) = Some 1"
  by (simp add: useSignals_attempts_def useSignals_load_def useSignals_init_def ok_def
      newest_def ex_prev_def ex_same_def insert_commute)

text \<open>
  Claim C2, amended: after a successful refresh the held sequence is the fetched one. When
  some fetched id is not among the ids of the previously held sequence, the flagged id is
  the id of the first such entry in the order of the fetched sequence: previous ids
  \<open>{a, b, c}\<close> and the new sequence \<open>[d, b, c, a]\<close> flag \<open>d\<close>. When every fetched id was
  held before, as for the new sequence \<open>[a, b, c]\<close>, the refresh sets no flag and the flag
  keeps the value it had; it is not cleared, so in every state the hook reaches a
  successful refresh with a non-empty sequence leaves some id flagged.
\<close>

theorem feed_sync_flags_first_absent_id:
  assumes r: "fetchJSON r = Inr data"
  shows "signals (snd (useSignals_load now r (con, st))) = data \<and>
    (\<forall>i<length data.
        entry_id (data ! i) \<notin> entry_id ` set (signals st) \<and>
        (\<forall>j<i. entry_id (data ! j) \<in> entry_id ` set (signals st)) \<longrightarrow>
        newId (snd (useSignals_load now r (con, st))) = Some (entry_id (data ! i))) \<and>
    ((\<forall>s\<in>set data. entry_id s \<in> entry_id ` set (signals st)) \<longrightarrow>
        newId (snd (useSignals_load now r (con, st))) = newId st) \<and>
    (entry_id ` set (signals st) = {a, b, c} \<and> map entry_id data = [d, b, c, a] \<and>
       d \<notin> {a, b, c} \<longrightarrow>
        newId (snd (useSignals_load now r (con, st))) = Some d) \<and>
    (entry_id ` set (signals st) = {a, b, c} \<and> map entry_id data = [a, b, c] \<longrightarrow>
        newId (snd (useSignals_load now r (con, st))) = newId st) \<and>
    (st = snd (useSignals_attempts attempts (con0, useSignals_init)) \<and> data \<noteq> [] \<longrightarrow>
        newId (snd (useSignals_load now r (con, st))) \<noteq> None)"
proof -
  let ?prev = "entry_id ` set (signals st)"
  let ?st' = "snd (useSignals_load now r (con, st))"
  have first: "newId ?st' = Some (entry_id (data ! i))"
    if "i < length data" "entry_id (data ! i) \<notin> ?prev"
       "\<forall>j<i. entry_id (data ! j) \<in> ?prev" for i
  proof -
    have "newest (signals st) data = Some (data ! i)"
      unfolding newest_def using that by (intro find_first) auto
    then show ?thesis by (simp add: useSignals_load_ok [OF r])
  qed
  have none: "newId ?st' = newId st" if "\<forall>s\<in>set data. entry_id s \<in> ?prev"
  proof -
    have "newest (signals st) data = None"
      unfolding newest_def using that by (intro find_none) auto
    then show ?thesis by (simp add: useSignals_load_ok [OF r])
  qed
  have c1: "signals ?st' = data" by (simp add: useSignals_load_ok [OF r])
  have c4: "newId ?st' = Some d"
    if "?prev = {a, b, c}" "map entry_id data = [d, b, c, a]" "d \<notin> {a, b, c}"
  proof -
    from that(2) have l: "0 < length data" and e: "entry_id (data ! 0) = d"
      by (auto simp: map_eq_Cons_conv)
    from first [OF l] e that show ?thesis by simp
  qed
  have c5: "newId ?st' = newId st"
    if "?prev = {a, b, c}" "map entry_id data = [a, b, c]"
  proof -
    from that(2) have "entry_id ` set data = {a, b, c}"
    proof -
      have "entry_id ` set data = set (map entry_id data)" by simp
      also have "\<dots> = {a, b, c}" unfolding that(2) by simp
      finally show ?thesis .
    qed
    with that(1) have "\<forall>s\<in>set data. entry_id s \<in> ?prev" by blast
    then show ?thesis by (rule none)
  qed
  have c2: "\<forall>i<length data.
        entry_id (data ! i) \<notin> ?prev \<and> (\<forall>j<i. entry_id (data ! j) \<in> ?prev) \<longrightarrow>
        newId ?st' = Some (entry_id (data ! i))"
    using first by blast
  have c3: "(\<forall>s\<in>set data. entry_id s \<in> ?prev) \<longrightarrow> newId ?st' = newId st"
    using none by blast
  have c4': "?prev = {a, b, c} \<and> map entry_id data = [d, b, c, a] \<and> d \<notin> {a, b, c} \<longrightarrow>
        newId ?st' = Some d"
    by (intro impI, elim conjE, rule c4)
  have c5': "?prev = {a, b, c} \<and> map entry_id data = [a, b, c] \<longrightarrow> newId ?st' = newId st"
    by (intro impI, elim conjE, rule c5)
  have c6: "st = snd (useSignals_attempts attempts (con0, useSignals_init)) \<and> data \<noteq> [] \<longrightarrow>
        newId ?st' \<noteq> None"
  proof (intro impI, elim conjE)
    assume st: "st = snd (useSignals_attempts attempts (con0, useSignals_init))"
      and dn: "data \<noteq> []"
    obtain c where cs: "useSignals_attempts attempts (con0, useSignals_init) = (c, st)"
      using st by (cases "useSignals_attempts attempts (con0, useSignals_init)") simp
    let ?run = "useSignals_attempts (attempts @ [(now, r)]) (con0, useSignals_init)"
    have run: "snd ?run = snd (useSignals_load now r (c, st))"
      by (simp add: useSignals_attempts_snoc cs)
    then have "signals (snd ?run) = data" by (simp add: useSignals_load_ok [OF r])
    with dn have "signals (snd ?run) \<noteq> []" by simp
    then have "newId (snd ?run) \<noteq> None" by (rule useSignals_attempts_flagged)
    with run show "newId ?st' \<noteq> None"
      using useSignals_load_snd [of now r c st con] by simp
  qed
  show ?thesis
    apply (rule conjI, rule c1)
    apply (rule conjI, rule c2)
    apply (rule conjI, rule c3)
    apply (rule conjI, rule c4')
    apply (rule conjI, rule c5')
    apply (rule c6)
    done
qed

theorem feed_sync_flags_first_absent_id_witness:
  "fetchJSON (Response 200 (Some ex_new)) = Inr ex_new \<and>
   fetchJSON (Response 200 (Some ex_same)) = Inr ex_same \<and>
   entry_id ` set (signals (snd (useSignals_attempts [(1, Response 200 (Some ex_prev))]
       ([], useSignals_init)))) = {1, 2, 3} \<and>
   newId (snd (useSignals_load 7 (Response 200 (Some ex_new))
                 ([], snd (useSignals_attempts [(1, Response 200 (Some ex_prev))]
                             ([], useSignals_init))))) = Some 4 \<and>
   newId (snd (useSignals_load 7 (Response 200 (Some ex_same))
                 ([], snd (useSignals_attempts [(1, Response 200 (Some ex_prev))]
                             ([], useSignals_init))))) = Some 1"
proof -
  let ?st = "snd (useSignals_attempts [(1, Response 200 (Some ex_prev))]
      ([], useSignals_init :: nat signals_state))"
  have r1: "fetchJSON (Response 200 (Some ex_new)) = Inr ex_new" by (simp add: ok_def)
  have r2: "fetchJSON (Response 200 (Some ex_same)) = Inr ex_same" by (simp add: ok_def)
  have p: "entry_id ` set (signals ?st) = {1, 2, 3}"
    by (simp add: useSignals_attempts_def useSignals_load_def ok_def ex_prev_def)
  have o: "newId ?st = Some 1"
    by (simp add: useSignals_attempts_def useSignals_load_def useSignals_init_def ok_def
        newest_def ex_prev_def)
  have n: "map entry_id ex_new = [4, 2, 3, 1]" by (simp add: ex_new_def)
  have s: "map entry_id ex_same = [1, 2, 3]" by (simp add: ex_same_def)
  have f: "(4::nat) \<notin> {1, 2, 3}" by simp
  note t1 = feed_sync_flags_first_absent_id [OF r1, where st = ?st and a = 1 and b = 2
      and c = 3 and d = 4 and now = 7 and con = "[]"]
  have a: "newId (snd (useSignals_load 7 (Response 200 (Some ex_new)) ([], ?st))) = Some 4"
    by (rule t1 [THEN conjunct2, THEN conjunct2, THEN conjunct2, THEN conjunct1, THEN mp])
      (intro conjI p n f)
  note t2 = feed_sync_flags_first_absent_id [OF r2, where st = ?st and a = 1 and b = 2
      and c = 3 and d = 0 and now = 7 and con = "[]"]
  have "newId (snd (useSignals_load 7 (Response 200 (Some ex_same)) ([], ?st))) = newId ?st"
    by (rule t2 [THEN conjunct2, THEN conjunct2, THEN conjunct2, THEN conjunct2,
          THEN conjunct1, THEN mp])
      (intro conjI p s)
  with o have b: "newId (snd (useSignals_load 7 (Response 200 (Some ex_same)) ([], ?st))) =
      Some 1" by simp
  from r1 r2 p a b show ?thesis by blast
qed

section \<open>Failed attempts and the held result\<close>

lemma last_success_snoc:
  "last_success (rs @ [r]) =
     (case fetchJSON r of Inr d \<Rightarrow> Some d | Inl e \<Rightarrow> last_success rs)"
  by (induction rs) (auto split: sum.splits option.splits)

lemma useSignals_attempts_signals:
  "signals (snd (useSignals_attempts as cs)) =
     (case last_success (map snd as) of None \<Rightarrow> signals (snd cs) | Some d \<Rightarrow> d)"
proof (induction as rule: rev_induct)
  case Nil
  then show ?case by (simp add: useSignals_attempts_def)
next
  case (snoc a as)
  obtain con st where cs: "useSignals_attempts as cs = (con, st)" by (cases "useSignals_attempts as cs")
  show ?case
  proof (cases "fetchJSON (snd a)")
    case (Inl e)
    with snoc cs show ?thesis
      by (simp add: useSignals_attempts_snoc last_success_snoc useSignals_load_failed)
  next
    case (Inr d)
    with cs show ?thesis
      by (simp add: useSignals_attempts_snoc last_success_snoc useSignals_load_ok)
  qed
qed

lemma useMarkets_load_ok:
  "fetchJSON r = Inr data \<Longrightarrow>
   useMarkets_load r (con, st) = (con, st\<lparr>markets := data, marketsLoading := False\<rparr>)"
  by (simp add: useMarkets_load_def)

lemma useMarkets_load_failed:
  "fetchJSON r = Inl e \<Longrightarrow>
   useMarkets_load r (con, st) =
     (con @ [(''Failed to fetch markets:'', e)], st\<lparr>marketsLoading := False\<rparr>)"
  by (simp add: useMarkets_load_def)

lemma useChartData_load_ok:
  "fetchJSON r = Inr data \<Longrightarrow>
   useChartData_load r (con, st) = (con, st\<lparr>chartData := data, chartLoading := False\<rparr>)"
  by (simp add: useChartData_load_def)

lemma useChartData_load_failed:
  "fetchJSON r = Inl e \<Longrightarrow>
   useChartData_load r (con, st) =
     (con @ [(''Failed to fetch chart data:'', e)], st\<lparr>chartLoading := False\<rparr>)"
  by (simp add: useChartData_load_def)

lemma useWatchlist_load_ok:
  "fetchJSON r = Inr data \<Longrightarrow>
   useWatchlist_load r (con, st) = (con, st\<lparr>watchlist := data, watchlistLoading := False\<rparr>)"
  by (simp add: useWatchlist_load_def)

lemma useWatchlist_load_failed:
  "fetchJSON r = Inl e \<Longrightarrow>
   useWatchlist_load r (con, st) =
     (con @ [(''Failed to fetch watchlist:'', e)], st\<lparr>watchlistLoading := False\<rparr>)"
  by (simp add: useWatchlist_load_def)

lemma useMarkets_attempts_markets:
  "markets (snd (useMarkets_attempts rs cs)) =
     (case last_success rs of None \<Rightarrow> markets (snd cs) | Some d \<Rightarrow> d)"
proof (induction rs rule: rev_induct)
  case Nil
  then show ?case by (simp add: useMarkets_attempts_def)
next
  case (snoc r rs)
  obtain con st where cs: "useMarkets_attempts rs cs = (con, st)"
    by (cases "useMarkets_attempts rs cs")
  have step: "useMarkets_attempts (rs @ [r]) cs = useMarkets_load r (con, st)"
    using cs by (simp add: useMarkets_attempts_def)
  show ?case
  proof (cases "fetchJSON r")
    case (Inl e)
    with snoc cs show ?thesis
      by (simp add: step last_success_snoc useMarkets_load_failed)
  next
    case (Inr d)
    then show ?thesis
      by (simp add: step last_success_snoc useMarkets_load_ok)
  qed
qed

lemma useChartData_attempts_chartData:
  "chartData (snd (useChartData_attempts rs cs)) =
     (case last_success rs of None \<Rightarrow> chartData (snd cs) | Some d \<Rightarrow> d)"
proof (induction rs rule: rev_induct)
  case Nil
  then show ?case by (simp add: useChartData_attempts_def)
next
  case (snoc r rs)
  obtain con st where cs: "useChartData_attempts rs cs = (con, st)"
    by (cases "useChartData_attempts rs cs")
  have step: "useChartData_attempts (rs @ [r]) cs = useChartData_load r (con, st)"
    using cs by (simp add: useChartData_attempts_def)
  show ?case
  proof (cases "fetchJSON r")
    case (Inl e)
    with snoc cs show ?thesis
      by (simp add: step last_success_snoc useChartData_load_failed)
  next
    case (Inr d)
    then show ?thesis
      by (simp add: step last_success_snoc useChartData_load_ok)
  qed
qed

lemma useWatchlist_attempts_watchlist:
  "watchlist (snd (useWatchlist_attempts rs cs)) =
     (case last_success rs of None \<Rightarrow> watchlist (snd cs) | Some d \<Rightarrow> d)"
proof (induction rs rule: rev_induct)
  case Nil
  then show ?case by (simp add: useWatchlist_attempts_def)
next
  case (snoc r rs)
  obtain con st where cs: "useWatchlist_attempts rs cs = (con, st)"
    by (cases "useWatchlist_attempts rs cs")
  have step: "useWatchlist_attempts (rs @ [r]) cs = useWatchlist_load r (con, st)"
    using cs by (simp add: useWatchlist_attempts_def)
  show ?case
  proof (cases "fetchJSON r")
    case (Inl e)
    with snoc cs show ?thesis
      by (simp add: step last_success_snoc useWatchlist_load_failed)
  next
    case (Inr d)
    then show ?thesis
      by (simp add: step last_success_snoc useWatchlist_load_ok)
  qed
qed

text \<open>
  Claim C3: in each of the four polling hooks (signals, markets, chart data, watchlist) a
  failed fetch attempt writes one line to the console and clears the loading flag; the held
  data, and for the signals hook the flagged id and the fetch time, stay as they were. Over
  any run of attempts the held data is the payload of the last attempt that succeeded, or
  the data held at the start when none did.
\<close>

theorem failed_attempt_keeps_held_result:
  "(fetchJSON r1 = Inl e1 \<longrightarrow>
      useSignals_load now r1 (con, s1) =
        (con @ [(''Failed to fetch signals:'', e1)], s1\<lparr>sigLoading := False\<rparr>)) \<and>
   (fetchJSON r2 = Inl e2 \<longrightarrow>
      useMarkets_load r2 (con, s2) =
        (con @ [(''Failed to fetch markets:'', e2)], s2\<lparr>marketsLoading := False\<rparr>)) \<and>
   (fetchJSON r3 = Inl e3 \<longrightarrow>
      useChartData_load r3 (con, s3) =
        (con @ [(''Failed to fetch chart data:'', e3)], s3\<lparr>chartLoading := False\<rparr>)) \<and>
   (fetchJSON r4 = Inl e4 \<longrightarrow>
      useWatchlist_load r4 (con, s4) =
        (con @ [(''Failed to fetch watchlist:'', e4)], s4\<lparr>watchlistLoading := False\<rparr>)) \<and>
   signals (snd (useSignals_attempts as1 cs1)) =
     (case last_success (map snd as1) of None \<Rightarrow> signals (snd cs1) | Some d \<Rightarrow> d) \<and>
   markets (snd (useMarkets_attempts rs2 cs2)) =
     (case last_success rs2 of None \<Rightarrow> markets (snd cs2) | Some d \<Rightarrow> d) \<and>
   chartData (snd (useChartData_attempts rs3 cs3)) =
     (case last_success rs3 of None \<Rightarrow> chartData (snd cs3) | Some d \<Rightarrow> d) \<and>
   watchlist (snd (useWatchlist_attempts rs4 cs4)) =
     (case last_success rs4 of None \<Rightarrow> watchlist (snd cs4) | Some d \<Rightarrow> d)"
  apply (intro conjI impI)
         apply (erule useSignals_load_failed)
        apply (erule useMarkets_load_failed)
       apply (erule useChartData_load_failed)
      apply (erule useWatchlist_load_failed)
     apply (rule useSignals_attempts_signals)
    apply (rule useMarkets_attempts_markets)
   apply (rule useChartData_attempts_chartData)
  apply (rule useWatchlist_attempts_watchlist)
  done

theorem failed_attempt_keeps_held_result_witness:
  "fetchJSON (Response 500 None :: nat signal_entry list fetch_result) = Inl (ApiError 500) \<and>
   useSignals_load 9 (Response 500 None) ([], useSignals_init\<lparr>signals := ex_prev\<rparr>) =
     ([(''Failed to fetch signals:'', ApiError 500)],
      useSignals_init\<lparr>signals := ex_prev, sigLoading := False\<rparr>) \<and>
   signals (snd (useSignals_attempts
       [(1, Response 200 (Some ex_prev)), (2, Rejected), (3, Response 503 (Some ex_new))]
       ([], useSignals_init))) = ex_prev"
proof -
  have f: "fetchJSON (Response 500 None :: nat signal_entry list fetch_result) = Inl (ApiError 500)"
    by (simp add: ok_def)
  have l: "last_success (map snd
       [(1::nat, Response 200 (Some ex_prev)), (2, Rejected), (3, Response 503 (Some ex_new))])
       = Some ex_prev"
    by (simp add: ok_def)
  note t = failed_attempt_keeps_held_result [where ?r1.0 = "Response 500 None"
      and ?e1.0 = "ApiError 500" and now = 9 and con = "[]"
      and ?s1.0 = "useSignals_init\<lparr>signals := ex_prev\<rparr>"
      and ?as1.0 = "[(1, Response 200 (Some ex_prev)), (2, Rejected), (3, Response 503 (Some ex_new))]"
      and ?cs1.0 = "([], useSignals_init)"]
  have a: "useSignals_load 9 (Response 500 None) ([], useSignals_init\<lparr>signals := ex_prev\<rparr>) =
     ([(''Failed to fetch signals:'', ApiError 500)],
      useSignals_init\<lparr>signals := ex_prev, sigLoading := False\<rparr>)"
    using t [THEN conjunct1, rule_format, OF f] by simp
  have b: "signals (snd (useSignals_attempts
       [(1, Response 200 (Some ex_prev)), (2, Rejected), (3, Response 503 (Some ex_new))]
       ([], useSignals_init))) = ex_prev"
    using t [THEN conjunct2, THEN conjunct2, THEN conjunct2, THEN conjunct2, THEN conjunct1]
    by (simp only: l option.case)
  from f a b show ?thesis by blast
qed

section \<open>The first successful fetch\<close>




section \<open>The enrollment flow\<close>

lemmas ex_flow_defs = ex_done_def ex_verify_def ex_form_def handleBetaVerify_def
  handleBetaSubmit_def ex_net_def ex_net_failing_def choosePlan_def openUpgrade_def FinSight_init_def
  signup_request_def verify_request_def trim_def js_def is_js_whitespace_def ok_def Let_def

lemma ex_form_eq:
  "ex_form = \<lparr>plan = JStr (js ''FREE''), showUpgrade = True, tickerInput = [],
      betaStep = Form, betaChoice = js ''ELITE'', betaName = js ''Ada'',
      betaEmail = js ''ada@example.com'', betaOtp = [],
      betaSubmitting = False, betaError = JStr []\<rparr>"
  by (simp add: ex_flow_defs)

lemma ex_verify_eq:
  "ex_verify = \<lparr>plan = JStr (js ''FREE''), showUpgrade = True, tickerInput = [],
      betaStep = Verify, betaChoice = js ''ELITE'', betaName = js ''Ada'',
      betaEmail = js ''ada@example.com'', betaOtp = js ''123456'',
      betaSubmitting = False, betaError = JStr []\<rparr>"
  by (simp add: ex_flow_defs)

lemma ex_done_eq:
  "ex_done = \<lparr>plan = JStr (js ''PRO''), showUpgrade = True, tickerInput = [],
      betaStep = Done, betaChoice = js ''ELITE'', betaName = js ''Ada'',
      betaEmail = js ''ada@example.com'', betaOtp = js ''123456'',
      betaSubmitting = False, betaError = JStr []\<rparr>"
  by (simp add: ex_flow_defs)

text \<open>
  Claim C6, as stated: resetting the flow restores the first step and clears every captured
  field, the chosen tier among them. It fails: after the example run, in which ELITE was
  picked, \<open>openUpgrade\<close> leaves the chosen tier at ELITE, not at its initial value.
\<close>

theorem reset_clears_chosen_tier_counterexample:
  "betaChoice (openUpgrade ex_done) = js ''ELITE'' \<and>
   \<not> (betaStep (openUpgrade ex_done) = Pick \<and>
      betaChoice (openUpgrade ex_done) = betaChoice FinSight_init \<and>
      betaName (openUpgrade ex_done) = [] \<and> betaEmail (openUpgrade ex_done) = [] \<and>
      betaOtp (openUpgrade ex_done) = [] \<and> betaError (openUpgrade ex_done) = JStr [])"
  by (simp add: ex_done_eq openUpgrade_def FinSight_init_def js_def)

text \<open>
  Claim C6, amended: reopening the flow restores the step \<open>pick\<close>, clears the contact
  name, the contact email, the code and the error, and shows the dialog; the chosen tier,
  the submitting flag and the active plan keep their values.
\<close>

theorem reset_restores_pick_and_clears_inputs:
  "betaStep (openUpgrade s) = Pick \<and> betaName (openUpgrade s) = [] \<and>
   betaEmail (openUpgrade s) = [] \<and> betaOtp (openUpgrade s) = [] \<and>
   betaError (openUpgrade s) = JStr [] \<and> showUpgrade (openUpgrade s) \<and>
   betaChoice (openUpgrade s) = betaChoice s \<and>
   betaSubmitting (openUpgrade s) = betaSubmitting s \<and>
   plan (openUpgrade s) = plan s \<and> tickerInput (openUpgrade s) = tickerInput s"
  by (simp add: openUpgrade_def)

theorem reset_restores_pick_and_clears_inputs_witness:
  "betaStep (openUpgrade ex_done) = Pick \<and> betaName (openUpgrade ex_done) = [] \<and>
   betaEmail (openUpgrade ex_done) = [] \<and> betaOtp (openUpgrade ex_done) = [] \<and>
   betaError (openUpgrade ex_done) = JStr [] \<and> showUpgrade (openUpgrade ex_done) \<and>
   betaChoice (openUpgrade ex_done) = js ''ELITE'' \<and>
   plan (openUpgrade ex_done) = JStr (js ''PRO'')"
  using reset_restores_pick_and_clears_inputs [of ex_done] by (simp add: ex_done_eq)

text \<open>
  What \<open>handleBetaVerify\<close> does once the code is not blank: one request, and a final state
  for every way the request can settle.
\<close>

lemma handleBetaVerify_issued:
  "trim (betaOtp s) \<noteq> [] \<Longrightarrow>
   handleBetaVerify net s =
     ([verify_request s],
      (case net (verify_request s) of
         Rejected \<Rightarrow> s\<lparr>betaError := JStr (js ''Something went wrong. Please try again.''), betaSubmitting := False\<rparr>
       | Response status body \<Rightarrow>
           if \<not> ok status then
             (case body of
                None \<Rightarrow> s\<lparr>betaError := JStr (js ''Something went wrong. Please try again.''), betaSubmitting := False\<rparr>
              | Some err \<Rightarrow>
                  (case get_prop err (js ''detail'') of
                     None \<Rightarrow> s\<lparr>betaError := JStr (js ''Something went wrong. Please try again.''), betaSubmitting := False\<rparr>
                   | Some d \<Rightarrow>
                       s\<lparr>betaError := (if truthy d then d
                                         else JStr (js ''Invalid code. Please try again.'')),
                         betaSubmitting := False\<rparr>))
           else
             (case body of
                None \<Rightarrow> s\<lparr>betaError := JStr (js ''Something went wrong. Please try again.''), betaSubmitting := False\<rparr>
              | Some data \<Rightarrow>
                  (case get_prop data (js ''plan'') of
                     None \<Rightarrow> s\<lparr>betaError := JStr (js ''Something went wrong. Please try again.''), betaSubmitting := False\<rparr>
                   | Some p \<Rightarrow>
                       s\<lparr>plan := p, betaStep := Done, betaError := JStr [],
                         betaSubmitting := False\<rparr>))))"
  by (simp add: handleBetaVerify_def Let_def split: fetch_result.splits option.splits)

text \<open>
  Claim C4: in the step \<open>verify\<close> with a code entered, a verify request that succeeds
  with a body carrying a plan moves the flow to \<open>done\<close> and sets the active plan to that
  value, whatever tier was chosen before; a verify request that fails leaves the step and
  the plan as they were, clears the submitting flag and sets the error: to the \<open>detail\<close>
  of the response when that is truthy, to \<open>Invalid code. Please try again.\<close> when the
  response carries no truthy \<open>detail\<close>, and to \<open>Something went wrong. Please try again.\<close>
  when the request is rejected or the body of the response cannot be read.
\<close>

theorem verify_step_outcomes:
  assumes v: "betaStep s = Verify" and c: "trim (betaOtp s) \<noteq> []"
  shows "fst (handleBetaVerify net s) = [verify_request s] \<and>
    (net (verify_request s) = Response status (Some data) \<and> ok status \<and>
       get_prop data (js ''plan'') = Some p \<longrightarrow>
       snd (handleBetaVerify net s) =
         s\<lparr>plan := p, betaStep := Done, betaError := JStr [], betaSubmitting := False\<rparr>) \<and>
    (net (verify_request s) = Response status (Some err) \<and> \<not> ok status \<and>
       get_prop err (js ''detail'') = Some d \<and> truthy d \<longrightarrow>
       snd (handleBetaVerify net s) = s\<lparr>betaError := d, betaSubmitting := False\<rparr>) \<and>
    (net (verify_request s) = Response status (Some err) \<and> \<not> ok status \<and>
       get_prop err (js ''detail'') = Some d \<and> \<not> truthy d \<longrightarrow>
       snd (handleBetaVerify net s) =
         s\<lparr>betaError := JStr (js ''Invalid code. Please try again.''),
           betaSubmitting := False\<rparr>) \<and>
    (net (verify_request s) = Rejected \<or>
     (net (verify_request s) = Response status None \<and> \<not> ok status) \<or>
     (net (verify_request s) = Response status (Some err) \<and> \<not> ok status \<and>
        get_prop err (js ''detail'') = None) \<longrightarrow>
       snd (handleBetaVerify net s) =
         s\<lparr>betaError := JStr (js ''Something went wrong. Please try again.''), betaSubmitting := False\<rparr>) \<and>
    (net (verify_request s) = Rejected \<or>
     (net (verify_request s) = Response status body \<and> \<not> ok status) \<longrightarrow>
       betaStep (snd (handleBetaVerify net s)) = Verify \<and>
       plan (snd (handleBetaVerify net s)) = plan s \<and>
       \<not> betaSubmitting (snd (handleBetaVerify net s)))"
  using v by (auto simp add: handleBetaVerify_issued [OF c] split: option.splits)


theorem verify_step_outcomes_witness:
  "betaStep ex_verify = Verify \<and> trim (betaOtp ex_verify) \<noteq> [] \<and>
   betaChoice ex_verify = js ''ELITE'' \<and>
   snd (handleBetaVerify ex_net ex_verify) =
     ex_verify\<lparr>plan := JStr (js ''PRO''), betaStep := Done, betaError := JStr [],
               betaSubmitting := False\<rparr> \<and>
   snd (handleBetaVerify ex_net_failing ex_verify) =
     ex_verify\<lparr>betaError := JStr (js ''Invalid or expired code.''), betaSubmitting := False\<rparr> \<and>
   snd (handleBetaVerify ex_net_down ex_verify) =
     ex_verify\<lparr>betaError := JStr (js ''Something went wrong. Please try again.''),
               betaSubmitting := False\<rparr> \<and>
   snd (handleBetaVerify ex_net_no_detail ex_verify) =
     ex_verify\<lparr>betaError := JStr (js ''Invalid code. Please try again.''),
               betaSubmitting := False\<rparr> \<and>
   JStr (js ''Something went wrong. Please try again.'') \<noteq> JStr [] \<and>
   JStr (js ''Invalid code. Please try again.'') \<noteq> JStr []"
proof -
  have v: "betaStep ex_verify = Verify" by (simp add: ex_verify_eq)
  have c: "trim (betaOtp ex_verify) \<noteq> []"
    by (simp add: ex_verify_eq trim_def js_def is_js_whitespace_def)
  have e: "betaChoice ex_verify = js ''ELITE''" by (simp add: ex_verify_eq)
  have n1: "ex_net (verify_request ex_verify) =
      Response 200 (Some (JObj [(js ''plan'', JStr (js ''PRO''))]))"
    by (simp add: ex_net_def verify_request_def js_def)
  have o: "ok 200" by (simp add: ok_def)
  have g: "get_prop (JObj [(js ''plan'', JStr (js ''PRO''))]) (js ''plan'') =
      Some (JStr (js ''PRO''))" by simp
  have a: "snd (handleBetaVerify ex_net ex_verify) =
     ex_verify\<lparr>plan := JStr (js ''PRO''), betaStep := Done, betaError := JStr [],
               betaSubmitting := False\<rparr>"
    using verify_step_outcomes [OF v c, where net = ex_net and status = 200
        and data = "JObj [(js ''plan'', JStr (js ''PRO''))]" and p = "JStr (js ''PRO'')"]
      n1 o g by blast
  have n2: "ex_net_failing (verify_request ex_verify) =
      Response 400 (Some (JObj [(js ''detail'', JStr (js ''Invalid or expired code.''))]))"
    by (simp add: ex_net_failing_def verify_request_def js_def)
  have o2: "\<not> ok 400" by (simp add: ok_def)
  have g2: "get_prop (JObj [(js ''detail'', JStr (js ''Invalid or expired code.''))])
      (js ''detail'') = Some (JStr (js ''Invalid or expired code.''))" by simp
  have t2: "truthy (JStr (js ''Invalid or expired code.''))" by (simp add: js_def)
  have b: "snd (handleBetaVerify ex_net_failing ex_verify) =
     ex_verify\<lparr>betaError := JStr (js ''Invalid or expired code.''), betaSubmitting := False\<rparr>"
    using verify_step_outcomes [OF v c, where net = ex_net_failing and status = 400
        and err = "JObj [(js ''detail'', JStr (js ''Invalid or expired code.''))]"
        and d = "JStr (js ''Invalid or expired code.'')"]
      n2 o2 g2 t2 by blast
  have n3: "ex_net_down (verify_request ex_verify) = Rejected" by (simp add: ex_net_down_def)
  have d: "snd (handleBetaVerify ex_net_down ex_verify) =
     ex_verify\<lparr>betaError := JStr (js ''Something went wrong. Please try again.''),
               betaSubmitting := False\<rparr>"
    using verify_step_outcomes [OF v c, where net = ex_net_down] n3 by blast
  have n4: "ex_net_no_detail (verify_request ex_verify) = Response 500 (Some (JObj []))"
    by (simp add: ex_net_no_detail_def)
  have o4: "\<not> ok 500" by (simp add: ok_def)
  have g4: "get_prop (JObj []) (js ''detail'') = Some JUndefined" by simp
  have t4: "\<not> truthy JUndefined" by simp
  have f: "snd (handleBetaVerify ex_net_no_detail ex_verify) =
     ex_verify\<lparr>betaError := JStr (js ''Invalid code. Please try again.''),
               betaSubmitting := False\<rparr>"
    using verify_step_outcomes [OF v c, where net = ex_net_no_detail and status = 500
        and err = "JObj []" and d = JUndefined]
      n4 o4 g4 t4 by blast
  have l1: "JStr (js ''Something went wrong. Please try again.'') \<noteq> JStr []"
    and l2: "JStr (js ''Invalid code. Please try again.'') \<noteq> JStr []"
    by (simp_all add: js_def)
  from v c e a b d f l1 l2 show ?thesis by blast
qed

text \<open>
  A response with a success status whose body is not JSON, or is \<open>null\<close>, ends in the
  \<open>catch\<close> branch: the step stays and the generic message is shown.
\<close>

lemma verify_ok_without_plan_object:
  assumes "trim (betaOtp s) \<noteq> []" and "ok status"
    and "net (verify_request s) = Response status body"
    and "body = None \<or> body = Some JNull"
  shows "snd (handleBetaVerify net s) =
           s\<lparr>betaError := JStr (js ''Something went wrong. Please try again.''), betaSubmitting := False\<rparr>"
  using assms(2-4) by (auto simp add: handleBetaVerify_issued [OF assms(1)])

lemma handleBetaSubmit_invalid:
  "trim (betaName s) = [] \<or> trim (betaEmail s) = [] \<Longrightarrow>
   handleBetaSubmit net s =
     ([], s\<lparr>betaError := JStr (js ''Please enter your name and email.'')\<rparr>)"
  by (simp add: handleBetaSubmit_def)

lemma handleBetaSubmit_issued:
  "trim (betaName s) \<noteq> [] \<Longrightarrow> trim (betaEmail s) \<noteq> [] \<Longrightarrow>
   handleBetaSubmit net s =
     ([signup_request s],
      (case net (signup_request s) of
         Rejected \<Rightarrow> s\<lparr>betaError := JStr (js ''Something went wrong. Please try again.''), betaSubmitting := False\<rparr>
       | Response status body \<Rightarrow>
           if \<not> ok status then
             (case body of
                None \<Rightarrow> s\<lparr>betaError := JStr (js ''Something went wrong. Please try again.''), betaSubmitting := False\<rparr>
              | Some err \<Rightarrow>
                  (case get_prop err (js ''detail'') of
                     None \<Rightarrow> s\<lparr>betaError := JStr (js ''Something went wrong. Please try again.''), betaSubmitting := False\<rparr>
                   | Some d \<Rightarrow>
                       s\<lparr>betaError := (if truthy d then d else JStr (js ''Something went wrong. Please try again.'')),
                         betaSubmitting := False\<rparr>))
           else s\<lparr>betaOtp := [], betaStep := Verify, betaError := JStr [],
                  betaSubmitting := False\<rparr>))"
  by (simp add: handleBetaSubmit_def Let_def split: fetch_result.splits option.splits)

lemma trim_Nil: "trim [] = []"
  by (simp add: trim_def)

text \<open>
  Claim C5: in the step \<open>form\<close>, submitting with an empty (or blank) name or email sets
  the validation error, issues no request and stays on the step; with a name and an email, a
  signup request that fails stays on the step with the submitting flag cleared and the error
  set to the \<open>detail\<close> of the response when that is truthy and to
  \<open>Something went wrong. Please try again.\<close> otherwise; a signup request that succeeds
  clears the code and moves to \<open>verify\<close>.
\<close>

theorem details_step_outcomes:
  assumes f: "betaStep s = Form"
  shows
   "(betaName s = [] \<or> betaEmail s = [] \<or> trim (betaName s) = [] \<or> trim (betaEmail s) = [] \<longrightarrow>
       handleBetaSubmit net s =
         ([], s\<lparr>betaError := JStr (js ''Please enter your name and email.'')\<rparr>) \<and>
       betaStep (snd (handleBetaSubmit net s)) = Form) \<and>
    (trim (betaName s) \<noteq> [] \<and> trim (betaEmail s) \<noteq> [] \<longrightarrow>
       fst (handleBetaSubmit net s) = [signup_request s] \<and>
       (net (signup_request s) = Response status (Some err) \<and> \<not> ok status \<and>
          get_prop err (js ''detail'') = Some d \<and> truthy d \<longrightarrow>
          snd (handleBetaSubmit net s) = s\<lparr>betaError := d, betaSubmitting := False\<rparr>) \<and>
       (net (signup_request s) = Rejected \<or>
        (net (signup_request s) = Response status None \<and> \<not> ok status) \<or>
        (net (signup_request s) = Response status (Some err) \<and> \<not> ok status \<and>
           (get_prop err (js ''detail'') = None \<or>
            get_prop err (js ''detail'') = Some d \<and> \<not> truthy d)) \<longrightarrow>
          snd (handleBetaSubmit net s) =
            s\<lparr>betaError := JStr (js ''Something went wrong. Please try again.''), betaSubmitting := False\<rparr>) \<and>
       (net (signup_request s) = Rejected \<or>
        (net (signup_request s) = Response status body \<and> \<not> ok status) \<longrightarrow>
          betaStep (snd (handleBetaSubmit net s)) = Form \<and>
          \<not> betaSubmitting (snd (handleBetaSubmit net s))) \<and>
       (net (signup_request s) = Response status body \<and> ok status \<longrightarrow>
          snd (handleBetaSubmit net s) =
            s\<lparr>betaOtp := [], betaStep := Verify, betaError := JStr [],
              betaSubmitting := False\<rparr>))"
proof -
  have a: "handleBetaSubmit net s =
         ([], s\<lparr>betaError := JStr (js ''Please enter your name and email.'')\<rparr>) \<and>
       betaStep (snd (handleBetaSubmit net s)) = Form"
    if "betaName s = [] \<or> betaEmail s = [] \<or> trim (betaName s) = [] \<or> trim (betaEmail s) = []"
  proof -
    from that have "trim (betaName s) = [] \<or> trim (betaEmail s) = []"
      using trim_Nil by auto
    from handleBetaSubmit_invalid [OF this] f show ?thesis by simp
  qed
  have b: "fst (handleBetaSubmit net s) = [signup_request s] \<and>
       (net (signup_request s) = Response status (Some err) \<and> \<not> ok status \<and>
          get_prop err (js ''detail'') = Some d \<and> truthy d \<longrightarrow>
          snd (handleBetaSubmit net s) = s\<lparr>betaError := d, betaSubmitting := False\<rparr>) \<and>
       (net (signup_request s) = Rejected \<or>
        (net (signup_request s) = Response status None \<and> \<not> ok status) \<or>
        (net (signup_request s) = Response status (Some err) \<and> \<not> ok status \<and>
           (get_prop err (js ''detail'') = None \<or>
            get_prop err (js ''detail'') = Some d \<and> \<not> truthy d)) \<longrightarrow>
          snd (handleBetaSubmit net s) =
            s\<lparr>betaError := JStr (js ''Something went wrong. Please try again.''), betaSubmitting := False\<rparr>) \<and>
       (net (signup_request s) = Rejected \<or>
        (net (signup_request s) = Response status body \<and> \<not> ok status) \<longrightarrow>
          betaStep (snd (handleBetaSubmit net s)) = Form \<and>
          \<not> betaSubmitting (snd (handleBetaSubmit net s))) \<and>
       (net (signup_request s) = Response status body \<and> ok status \<longrightarrow>
          snd (handleBetaSubmit net s) =
            s\<lparr>betaOtp := [], betaStep := Verify, betaError := JStr [],
              betaSubmitting := False\<rparr>)"
    if n: "trim (betaName s) \<noteq> []" and e: "trim (betaEmail s) \<noteq> []"
    using f by (auto simp add: handleBetaSubmit_issued [OF n e] split: option.splits)
  from a b show ?thesis by blast
qed


theorem details_step_outcomes_witness:
  "betaStep ex_form = Form \<and>
   handleBetaSubmit ex_net (ex_form\<lparr>betaEmail := []\<rparr>) =
     ([], ex_form\<lparr>betaEmail := [],
                 betaError := JStr (js ''Please enter your name and email.'')\<rparr>) \<and>
   snd (handleBetaSubmit ex_net_failing ex_form) =
     ex_form\<lparr>betaError := JStr (js ''Email already registered.'')\<rparr> \<and>
   fst (handleBetaSubmit ex_net (ex_form\<lparr>betaOtp := js ''999999''\<rparr>)) =
     [signup_request ex_form] \<and>
   snd (handleBetaSubmit ex_net (ex_form\<lparr>betaOtp := js ''999999''\<rparr>)) =
     ex_form\<lparr>betaStep := Verify\<rparr> \<and>
   snd (handleBetaSubmit ex_net_down ex_form) =
     ex_form\<lparr>betaError := JStr (js ''Something went wrong. Please try again.''),
             betaSubmitting := False\<rparr> \<and>
   snd (handleBetaSubmit ex_net_no_detail ex_form) =
     ex_form\<lparr>betaError := JStr (js ''Something went wrong. Please try again.''),
             betaSubmitting := False\<rparr> \<and>
   JStr (js ''Something went wrong. Please try again.'') \<noteq> JStr [] \<and>
   JStr (js ''Please enter your name and email.'') \<noteq> JStr []"
proof -
  have f: "betaStep ex_form = Form" by (simp add: ex_form_eq)
  have f1: "betaStep (ex_form\<lparr>betaEmail := []\<rparr>) = Form" by (simp add: ex_form_eq)
  have f2: "betaStep (ex_form\<lparr>betaOtp := js ''999999''\<rparr>) = Form" by (simp add: ex_form_eq)
  have a: "handleBetaSubmit ex_net (ex_form\<lparr>betaEmail := []\<rparr>) =
     ([], ex_form\<lparr>betaEmail := [],
                 betaError := JStr (js ''Please enter your name and email.'')\<rparr>)"
    using details_step_outcomes [OF f1, where net = ex_net] by simp
  have n: "trim (betaName ex_form) \<noteq> []" and e: "trim (betaEmail ex_form) \<noteq> []"
    by (simp_all add: ex_form_eq trim_def js_def is_js_whitespace_def)
  have r2: "ex_net_failing (signup_request ex_form) =
      Response 422 (Some (JObj [(js ''detail'', JStr (js ''Email already registered.''))]))"
    by (simp add: ex_net_failing_def signup_request_def)
  have o2: "\<not> ok 422" by (simp add: ok_def)
  have g2: "get_prop (JObj [(js ''detail'', JStr (js ''Email already registered.''))])
      (js ''detail'') = Some (JStr (js ''Email already registered.''))" by simp
  have t2: "truthy (JStr (js ''Email already registered.''))" by (simp add: js_def)
  have "snd (handleBetaSubmit ex_net_failing ex_form) =
     ex_form\<lparr>betaError := JStr (js ''Email already registered.''), betaSubmitting := False\<rparr>"
    using details_step_outcomes [OF f, where net = ex_net_failing and status = 422
        and err = "JObj [(js ''detail'', JStr (js ''Email already registered.''))]"
        and d = "JStr (js ''Email already registered.'')"]
      n e r2 o2 g2 t2 by blast
  then have b: "snd (handleBetaSubmit ex_net_failing ex_form) =
     ex_form\<lparr>betaError := JStr (js ''Email already registered.'')\<rparr>"
    by (simp add: ex_form_eq)
  have n3: "trim (betaName (ex_form\<lparr>betaOtp := js ''999999''\<rparr>)) \<noteq> []"
    and e3: "trim (betaEmail (ex_form\<lparr>betaOtp := js ''999999''\<rparr>)) \<noteq> []"
    using n e by simp_all
  have q: "signup_request (ex_form\<lparr>betaOtp := js ''999999''\<rparr>) = signup_request ex_form"
    by (simp add: signup_request_def)
  have r3: "ex_net (signup_request (ex_form\<lparr>betaOtp := js ''999999''\<rparr>)) =
      Response 200 (Some (JObj []))"
    by (simp add: ex_net_def signup_request_def)
  have o3: "ok 200" by (simp add: ok_def)
  note t = details_step_outcomes [OF f2, where net = ex_net and status = 200
        and body = "Some (JObj [])"]
  from t n3 e3 q have c: "fst (handleBetaSubmit ex_net (ex_form\<lparr>betaOtp := js ''999999''\<rparr>)) =
     [signup_request ex_form]" by simp
  from t n3 e3 r3 o3
  have "snd (handleBetaSubmit ex_net (ex_form\<lparr>betaOtp := js ''999999''\<rparr>)) =
     ex_form\<lparr>betaOtp := js ''999999''\<rparr>\<lparr>betaOtp := [], betaStep := Verify, betaError := JStr [],
              betaSubmitting := False\<rparr>" by blast
  then have d: "snd (handleBetaSubmit ex_net (ex_form\<lparr>betaOtp := js ''999999''\<rparr>)) =
     ex_form\<lparr>betaStep := Verify\<rparr>"
    by (simp add: ex_form_eq)
  have r5: "ex_net_down (signup_request ex_form) = Rejected" by (simp add: ex_net_down_def)
  have g: "snd (handleBetaSubmit ex_net_down ex_form) =
     ex_form\<lparr>betaError := JStr (js ''Something went wrong. Please try again.''),
             betaSubmitting := False\<rparr>"
    using details_step_outcomes [OF f, where net = ex_net_down] n e r5 by blast
  have r6: "ex_net_no_detail (signup_request ex_form) = Response 500 (Some (JObj []))"
    by (simp add: ex_net_no_detail_def)
  have o6: "\<not> ok 500" by (simp add: ok_def)
  have g6: "get_prop (JObj []) (js ''detail'') = Some JUndefined" by simp
  have t6: "\<not> truthy JUndefined" by simp
  have h: "snd (handleBetaSubmit ex_net_no_detail ex_form) =
     ex_form\<lparr>betaError := JStr (js ''Something went wrong. Please try again.''),
             betaSubmitting := False\<rparr>"
    using details_step_outcomes [OF f, where net = ex_net_no_detail and status = 500
        and err = "JObj []" and d = JUndefined]
      n e r6 o6 g6 t6 by blast
  have l1: "JStr (js ''Something went wrong. Please try again.'') \<noteq> JStr []"
    and l2: "JStr (js ''Please enter your name and email.'') \<noteq> JStr []"
    by (simp_all add: js_def)
  from f a b c d g h l1 l2 show ?thesis by blast
qed

section \<open>Adding a ticker\<close>

lemma rev_dropWhile_takeWhile:
  "xs = rev (dropWhile P (rev xs)) @ rev (takeWhile P (rev xs))"
proof -
  have "xs = rev (takeWhile P (rev xs) @ dropWhile P (rev xs))"
    by (simp only: takeWhile_dropWhile_id rev_rev_ident)
  then show ?thesis by (simp only: rev_append)
qed

lemma trim_decompose:
  "\<exists>a b. s = a @ trim s @ b \<and> list_all is_js_whitespace a \<and> list_all is_js_whitespace b"
proof -
  let ?w = is_js_whitespace
  let ?d = "dropWhile ?w s"
  have d: "?d = trim s @ rev (takeWhile ?w (rev ?d))"
    unfolding trim_def by (rule rev_dropWhile_takeWhile)
  have "s = takeWhile ?w s @ ?d" by simp
  with d have s: "s = takeWhile ?w s @ trim s @ rev (takeWhile ?w (rev ?d))" by simp
  have a: "list_all ?w (takeWhile ?w s)"
    by (simp add: list_all_iff) (meson set_takeWhileD)
  have b: "list_all ?w (rev (takeWhile ?w (rev ?d)))"
    by (simp add: list_all_iff) (meson set_takeWhileD)
  from s a b show ?thesis by blast
qed

lemma trim_ends:
  assumes "trim s \<noteq> []"
  shows "\<not> is_js_whitespace (hd (trim s)) \<and> \<not> is_js_whitespace (last (trim s))"
proof -
  let ?w = is_js_whitespace
  let ?d = "dropWhile ?w s"
  let ?e = "dropWhile ?w (rev ?d)"
  have t: "trim s = rev ?e" by (simp add: trim_def)
  with assms have e: "?e \<noteq> []" by simp
  then have "\<not> ?w (hd ?e)" by (rule hd_dropWhile)
  with e t have l: "\<not> ?w (last (trim s))" by (simp add: last_rev)
  have dn: "?d \<noteq> []"
  proof
    assume "?d = []"
    then have "?e = []" by (simp only: rev.simps dropWhile.simps)
    with e show False by simp
  qed
  then have hd: "\<not> ?w (hd ?d)" by (rule hd_dropWhile)
  have "?d = trim s @ rev (takeWhile ?w (rev ?d))"
    unfolding trim_def by (rule rev_dropWhile_takeWhile)
  with assms have "hd ?d = hd (trim s)" by (metis hd_append2)
  with hd l show ?thesis by simp
qed

lemma toUpperCase_ascii:
  "\<forall>c\<in>set x. c < 128 \<Longrightarrow>
   toUpperCase U x = map (\<lambda>c. if 97 \<le> c \<and> c \<le> 122 then c - 32 else c) x"
  by (induction x) (simp_all add: toUpperCase_def)

lemma toUpperCase_Nil_iff:
  "\<forall>c. U c \<noteq> [] \<Longrightarrow> toUpperCase U x = [] \<longleftrightarrow> x = []"
  by (cases x) (simp_all add: toUpperCase_def)

lemma handleAddTicker_empty:
  "toUpperCase U (trim (tickerInput s)) = [] \<Longrightarrow> handleAddTicker U m reload (s, cs) = ([], s, cs)"
  by (simp add: handleAddTicker_def)

lemma handleAddTicker_nonempty:
  "toUpperCase U (trim (tickerInput s)) = t \<Longrightarrow> t \<noteq> [] \<Longrightarrow>
   handleAddTicker U m reload (s, cs) =
     (fst (addTicker t t m reload cs), s\<lparr>tickerInput := []\<rparr>, snd (addTicker t t m reload cs))"
  by (simp add: handleAddTicker_def Let_def split: prod.splits)

lemma addTicker_first_request:
  "fst (addTicker t n m reload cs) \<noteq> [] \<and>
   hd (fst (addTicker t n m reload cs)) =
     Request (js ''POST'') (js ''/api/watchlist'')
       (JObj [(js ''ticker'', JStr t), (js ''name'', JStr n)])"
  by (simp add: addTicker_def Let_def split: sum.splits)

lemma normalize_bhp: "toUpperCase U (trim (js ''bhp.ax'')) = js ''BHP.AX''"
  by (simp add: toUpperCase_def trim_def js_def is_js_whitespace_def)

text \<open>
  Claim C7: the add handler normalizes the input by trimming white space from both ends and
  uppercasing (so \<open>bhp.ax\<close> is posted as the ticker \<open>BHP.AX\<close>); when the normalized
  ticker is empty, as for an empty input, the handler returns without a request and leaves
  the input and the store as they were; otherwise its first request is the POST that
  carries the normalized ticker. Since no code point is uppercased to nothing, the
  normalized ticker is empty exactly when the input is blank.
\<close>

theorem add_ticker_normalizes_and_skips_empty:
  "(toUpperCase U (trim (tickerInput s)) = [] \<longrightarrow>
      handleAddTicker U m reload (s, cs) = ([], s, cs)) \<and>
   (tickerInput s = [] \<longrightarrow> handleAddTicker U m reload (s, cs) = ([], s, cs)) \<and>
   (toUpperCase U (trim (tickerInput s)) \<noteq> [] \<longrightarrow>
      fst (handleAddTicker U m reload (s, cs)) \<noteq> [] \<and>
      hd (fst (handleAddTicker U m reload (s, cs))) =
        Request (js ''POST'') (js ''/api/watchlist'')
          (JObj [(js ''ticker'', JStr (toUpperCase U (trim (tickerInput s)))),
                 (js ''name'', JStr (toUpperCase U (trim (tickerInput s))))])) \<and>
   (tickerInput s = js ''bhp.ax'' \<longrightarrow>
      hd (fst (handleAddTicker U m reload (s, cs))) =
        Request (js ''POST'') (js ''/api/watchlist'')
          (JObj [(js ''ticker'', JStr (js ''BHP.AX'')), (js ''name'', JStr (js ''BHP.AX''))])) \<and>
   (\<exists>a b. tickerInput s = a @ trim (tickerInput s) @ b \<and>
      list_all is_js_whitespace a \<and> list_all is_js_whitespace b) \<and>
   (trim (tickerInput s) \<noteq> [] \<longrightarrow>
      \<not> is_js_whitespace (hd (trim (tickerInput s))) \<and>
      \<not> is_js_whitespace (last (trim (tickerInput s)))) \<and>
   ((\<forall>c\<in>set (trim (tickerInput s)). c < 128) \<longrightarrow>
      toUpperCase U (trim (tickerInput s)) =
        map (\<lambda>c. if 97 \<le> c \<and> c \<le> 122 then c - 32 else c) (trim (tickerInput s))) \<and>
   ((\<forall>c. U c \<noteq> []) \<longrightarrow>
      (toUpperCase U (trim (tickerInput s)) = [] \<longleftrightarrow> trim (tickerInput s) = []))"
proof -
  let ?t = "toUpperCase U (trim (tickerInput s))"
  have c1: "?t = [] \<longrightarrow> handleAddTicker U m reload (s, cs) = ([], s, cs)"
    by (simp add: handleAddTicker_empty)
  have c2: "tickerInput s = [] \<longrightarrow> handleAddTicker U m reload (s, cs) = ([], s, cs)"
    by (simp add: handleAddTicker_def trim_def toUpperCase_def)
  have c3: "?t \<noteq> [] \<longrightarrow>
      fst (handleAddTicker U m reload (s, cs)) \<noteq> [] \<and>
      hd (fst (handleAddTicker U m reload (s, cs))) =
        Request (js ''POST'') (js ''/api/watchlist'')
          (JObj [(js ''ticker'', JStr ?t), (js ''name'', JStr ?t)])"
  proof
    assume n: "?t \<noteq> []"
    from handleAddTicker_nonempty [OF refl n, where m = m and reload = reload and cs = cs]
    have "fst (handleAddTicker U m reload (s, cs)) = fst (addTicker ?t ?t m reload cs)" by simp
    with addTicker_first_request [of ?t ?t m reload cs]
    show "fst (handleAddTicker U m reload (s, cs)) \<noteq> [] \<and>
      hd (fst (handleAddTicker U m reload (s, cs))) =
        Request (js ''POST'') (js ''/api/watchlist'')
          (JObj [(js ''ticker'', JStr ?t), (js ''name'', JStr ?t)])" by simp
  qed
  have c4: "tickerInput s = js ''bhp.ax'' \<longrightarrow>
      hd (fst (handleAddTicker U m reload (s, cs))) =
        Request (js ''POST'') (js ''/api/watchlist'')
          (JObj [(js ''ticker'', JStr (js ''BHP.AX'')), (js ''name'', JStr (js ''BHP.AX''))])"
  proof
    assume i: "tickerInput s = js ''bhp.ax''"
    then have t: "?t = js ''BHP.AX''" by (simp add: normalize_bhp)
    then have "?t \<noteq> []" by (simp add: js_def)
    with c3 t show "hd (fst (handleAddTicker U m reload (s, cs))) =
        Request (js ''POST'') (js ''/api/watchlist'')
          (JObj [(js ''ticker'', JStr (js ''BHP.AX'')), (js ''name'', JStr (js ''BHP.AX''))])"
      by simp
  qed
  note c5 = trim_decompose [of "tickerInput s"]
  have c6: "trim (tickerInput s) \<noteq> [] \<longrightarrow>
      \<not> is_js_whitespace (hd (trim (tickerInput s))) \<and>
      \<not> is_js_whitespace (last (trim (tickerInput s)))"
    using trim_ends by blast
  have c7: "(\<forall>c\<in>set (trim (tickerInput s)). c < 128) \<longrightarrow>
      ?t = map (\<lambda>c. if 97 \<le> c \<and> c \<le> 122 then c - 32 else c) (trim (tickerInput s))"
    using toUpperCase_ascii by blast
  have c8: "(\<forall>c. U c \<noteq> []) \<longrightarrow> (?t = [] \<longleftrightarrow> trim (tickerInput s) = [])"
    using toUpperCase_Nil_iff by blast
  show ?thesis
    apply (rule conjI, rule c1)
    apply (rule conjI, rule c2)
    apply (rule conjI, rule c3)
    apply (rule conjI, rule c4)
    apply (rule conjI, rule c5)
    apply (rule conjI, rule c6)
    apply (rule conjI, rule c7)
    apply (rule c8)
    done
qed

theorem add_ticker_normalizes_and_skips_empty_witness:
  "toUpperCase (\<lambda>c. [c]) (trim (js '' bhp.ax '')) = js ''BHP.AX'' \<and>
   hd (fst (handleAddTicker (\<lambda>c. [c]) (Response 201 (Some JNull)) (Response 200 (Some [1, 2, 3]))
              (FinSight_init\<lparr>tickerInput := js '' bhp.ax ''\<rparr>, ex_store))) =
     Request (js ''POST'') (js ''/api/watchlist'')
       (JObj [(js ''ticker'', JStr (js ''BHP.AX'')), (js ''name'', JStr (js ''BHP.AX''))]) \<and>
   handleAddTicker (\<lambda>c. [c]) (Response 201 (Some JNull)) (Response 200 (Some [1, 2, 3]))
       (FinSight_init\<lparr>tickerInput := js ''   ''\<rparr>, ex_store) =
     ([], FinSight_init\<lparr>tickerInput := js ''   ''\<rparr>, ex_store)"
proof -
  have t: "toUpperCase (\<lambda>c. [c]) (trim (js '' bhp.ax '')) = js ''BHP.AX''"
    by (simp add: toUpperCase_def trim_def js_def is_js_whitespace_def)
  then have n: "toUpperCase (\<lambda>c. [c])
      (trim (tickerInput (FinSight_init\<lparr>tickerInput := js '' bhp.ax ''\<rparr>))) \<noteq> []"
    by (simp add: js_def)
  have a: "hd (fst (handleAddTicker (\<lambda>c. [c]) (Response 201 (Some JNull))
              (Response 200 (Some [1, 2, 3]))
              (FinSight_init\<lparr>tickerInput := js '' bhp.ax ''\<rparr>, ex_store))) =
     Request (js ''POST'') (js ''/api/watchlist'')
       (JObj [(js ''ticker'', JStr (js ''BHP.AX'')), (js ''name'', JStr (js ''BHP.AX''))])"
    using add_ticker_normalizes_and_skips_empty [where U = "\<lambda>c. [c]"
        and s = "FinSight_init\<lparr>tickerInput := js '' bhp.ax ''\<rparr>"
        and m = "Response 201 (Some JNull)" and reload = "Response 200 (Some [1, 2, 3])"
        and cs = ex_store] n t
    by simp
  have e: "toUpperCase (\<lambda>c. [c])
      (trim (tickerInput (FinSight_init\<lparr>tickerInput := js ''   ''\<rparr>))) = []"
    by (simp add: toUpperCase_def trim_def js_def is_js_whitespace_def)
  have b: "handleAddTicker (\<lambda>c. [c]) (Response 201 (Some JNull)) (Response 200 (Some [1, 2, 3]))
       (FinSight_init\<lparr>tickerInput := js ''   ''\<rparr>, ex_store) =
     ([], FinSight_init\<lparr>tickerInput := js ''   ''\<rparr>, ex_store)"
    using add_ticker_normalizes_and_skips_empty [where U = "\<lambda>c. [c]"
        and s = "FinSight_init\<lparr>tickerInput := js ''   ''\<rparr>"
        and m = "Response 201 (Some JNull)" and reload = "Response 200 (Some [1, 2, 3])"
        and cs = ex_store] e
    by blast
  from t a b show ?thesis by blast
qed

section \<open>Watchlist mutations\<close>

lemma useWatchlist_load_watchlist:
  "watchlist (snd (useWatchlist_load r cs)) =
     (case fetchJSON r of Inr d \<Rightarrow> d | Inl e \<Rightarrow> watchlist (snd cs))"
  by (cases cs) (simp add: useWatchlist_load_def split: sum.splits)

lemma addTicker_ok:
  "fetchJSON m = Inr v \<Longrightarrow>
   addTicker ticker name m reload cs =
     ([Request (js ''POST'') (js ''/api/watchlist'')
         (JObj [(js ''ticker'', JStr ticker), (js ''name'', JStr name)]),
       Request (js ''GET'') (js ''/api/watchlist'') JUndefined],
      useWatchlist_load reload cs)"
  by (simp add: addTicker_def)

lemma addTicker_failed:
  "fetchJSON m = Inl e \<Longrightarrow>
   addTicker ticker name m reload cs =
     ([Request (js ''POST'') (js ''/api/watchlist'')
         (JObj [(js ''ticker'', JStr ticker), (js ''name'', JStr name)])],
      (fst cs @ [(''Failed to add ticker:'', e)], snd cs))"
  by (simp add: addTicker_def)

lemma removeTicker_ok:
  "fetchJSON m = Inr v \<Longrightarrow>
   removeTicker ticker m reload cs =
     ([Request (js ''DELETE'') (js ''/api/watchlist/'' @ ticker) JUndefined,
       Request (js ''GET'') (js ''/api/watchlist'') JUndefined],
      useWatchlist_load reload cs)"
  by (simp add: removeTicker_def)

lemma removeTicker_failed:
  "fetchJSON m = Inl e \<Longrightarrow>
   removeTicker ticker m reload cs =
     ([Request (js ''DELETE'') (js ''/api/watchlist/'' @ ticker) JUndefined],
      (fst cs @ [(''Failed to remove ticker:'', e)], snd cs))"
  by (simp add: removeTicker_def)

lemma watchlist_apply_watchlist:
  "watchlist (snd (watchlist_apply cs op)) =
     (case last_success (loads_made [op]) of None \<Rightarrow> watchlist (snd cs) | Some d \<Rightarrow> d)"
proof (cases op)
  case (Load r)
  then show ?thesis by (simp add: useWatchlist_load_watchlist split: sum.splits)
next
  case (Add ticker name m reload)
  then show ?thesis
    by (cases "fetchJSON m")
      (simp_all add: addTicker_ok addTicker_failed useWatchlist_load_watchlist split: sum.splits)
next
  case (Remove ticker m reload)
  then show ?thesis
    by (cases "fetchJSON m")
      (simp_all add: removeTicker_ok removeTicker_failed useWatchlist_load_watchlist
         split: sum.splits)
qed

lemma loads_made_Cons: "loads_made (op # ops) = loads_made [op] @ loads_made ops"
  by (cases op) (simp_all split: sum.splits)

lemma last_success_append:
  "last_success (xs @ ys) =
     (case last_success ys of Some d \<Rightarrow> Some d | None \<Rightarrow> last_success xs)"
  by (induction xs) (simp_all split: option.splits)

lemma watchlist_run_watchlist:
  "watchlist (snd (watchlist_run ops cs)) =
     (case last_success (loads_made ops) of None \<Rightarrow> watchlist (snd cs) | Some d \<Rightarrow> d)"
proof (induction ops arbitrary: cs)
  case Nil
  then show ?case by (simp add: watchlist_run_def)
next
  case (Cons op ops)
  have "watchlist_run (op # ops) cs = watchlist_run ops (watchlist_apply cs op)"
    by (simp add: watchlist_run_def)
  then have "watchlist (snd (watchlist_run (op # ops) cs)) =
      (case last_success (loads_made ops) of
         None \<Rightarrow> watchlist (snd (watchlist_apply cs op)) | Some d \<Rightarrow> d)"
    by (simp add: Cons.IH)
  also have "\<dots> = (case last_success (loads_made (op # ops)) of
         None \<Rightarrow> watchlist (snd cs) | Some d \<Rightarrow> d)"
    unfolding loads_made_Cons [of op ops] last_success_append watchlist_apply_watchlist
    by (simp split: option.splits)
  finally show ?case .
qed

lemma fetchJSON_cases:
  "fetchJSON Rejected = Inl NetworkFailure"
  "\<not> ok status \<Longrightarrow> fetchJSON (Response status body) = Inl (ApiError status)"
  "ok status \<Longrightarrow> fetchJSON (Response status None) = Inl InvalidJson"
  "ok status \<Longrightarrow> fetchJSON (Response status (Some v)) = Inr v"
  by simp_all

text \<open>
  Claim C8, as stated: a successful mutation request is always followed by a full reload.
  It fails for a request that succeeds without a JSON body: the delete request is answered
  with the status 204 and no body, \<open>fetchJSON\<close> throws on reading the body, the mutation
  is logged as failed, and the list request that would have fetched the new list is never
  made.
\<close>

theorem mutation_without_json_body_not_reloaded_counterexample:
  "ok 204 \<and>
   removeTicker (js ''BHP.AX'') (Response 204 None) (Response 200 (Some [1])) ex_store =
     ([Request (js ''DELETE'') (js ''/api/watchlist/BHP.AX'') JUndefined],
      ([(''Failed to remove ticker:'', InvalidJson)],
       \<lparr>watchlist = [1, 2], watchlistLoading = False\<rparr>))"
  by (simp add: removeTicker_def ex_store_def ok_def js_def)

text \<open>
  Claim C8, amended: a mutation (add or remove) whose request is answered with a success
  status and a JSON body is followed by the request that reloads the list, and the held
  list is then what \<open>load\<close> makes of the reload: the reloaded list, or the list held
  before when the reload fails; it is never patched in place. A mutation whose request is
  rejected, is answered with another status, or is answered with a success status but
  without a JSON body is logged as failed, makes no further request and leaves the held
  list untouched. Over any run of loads and mutations the held list is the payload of the
  last list request that succeeded.
\<close>

theorem watchlist_mutation_reloads_or_keeps:
  "(m = Response status (Some v) \<and> ok status \<longrightarrow>
      addTicker ticker name m reload cs =
        ([Request (js ''POST'') (js ''/api/watchlist'')
            (JObj [(js ''ticker'', JStr ticker), (js ''name'', JStr name)]),
          Request (js ''GET'') (js ''/api/watchlist'') JUndefined],
         useWatchlist_load reload cs) \<and>
      removeTicker ticker m reload cs =
        ([Request (js ''DELETE'') (js ''/api/watchlist/'' @ ticker) JUndefined,
          Request (js ''GET'') (js ''/api/watchlist'') JUndefined],
         useWatchlist_load reload cs)) \<and>
   (m = Response status (Some v) \<and> ok status \<and> fetchJSON reload = Inr data \<longrightarrow>
      watchlist (snd (snd (addTicker ticker name m reload cs))) = data \<and>
      watchlist (snd (snd (removeTicker ticker m reload cs))) = data) \<and>
   (m = Response status (Some v) \<and> ok status \<and> fetchJSON reload = Inl e \<longrightarrow>
      watchlist (snd (snd (addTicker ticker name m reload cs))) = watchlist (snd cs) \<and>
      watchlist (snd (snd (removeTicker ticker m reload cs))) = watchlist (snd cs)) \<and>
   (m = Rejected \<and> e' = NetworkFailure \<or>
    m = Response status body \<and> \<not> ok status \<and> e' = ApiError status \<or>
    m = Response status None \<and> ok status \<and> e' = InvalidJson \<longrightarrow>
      addTicker ticker name m reload cs =
        ([Request (js ''POST'') (js ''/api/watchlist'')
            (JObj [(js ''ticker'', JStr ticker), (js ''name'', JStr name)])],
         (fst cs @ [(''Failed to add ticker:'', e')], snd cs)) \<and>
      removeTicker ticker m reload cs =
        ([Request (js ''DELETE'') (js ''/api/watchlist/'' @ ticker) JUndefined],
         (fst cs @ [(''Failed to remove ticker:'', e')], snd cs))) \<and>
   watchlist (snd (watchlist_run ops cs)) =
     (case last_success (loads_made ops) of None \<Rightarrow> watchlist (snd cs) | Some d \<Rightarrow> d)"
proof -
  have c1: "addTicker ticker name m reload cs =
        ([Request (js ''POST'') (js ''/api/watchlist'')
            (JObj [(js ''ticker'', JStr ticker), (js ''name'', JStr name)]),
          Request (js ''GET'') (js ''/api/watchlist'') JUndefined],
         useWatchlist_load reload cs) \<and>
      removeTicker ticker m reload cs =
        ([Request (js ''DELETE'') (js ''/api/watchlist/'' @ ticker) JUndefined,
          Request (js ''GET'') (js ''/api/watchlist'') JUndefined],
         useWatchlist_load reload cs)"
    if "m = Response status (Some v)" "ok status"
  proof -
    from that have "fetchJSON m = Inr v" by (simp add: fetchJSON_cases)
    then show ?thesis by (simp add: addTicker_ok removeTicker_ok)
  qed
  have c2: "watchlist (snd (snd (addTicker ticker name m reload cs))) = data \<and>
      watchlist (snd (snd (removeTicker ticker m reload cs))) = data"
    if "m = Response status (Some v)" "ok status" "fetchJSON reload = Inr data"
    using c1 [OF that(1,2)] that(3) by (simp add: useWatchlist_load_watchlist)
  have c3: "watchlist (snd (snd (addTicker ticker name m reload cs))) = watchlist (snd cs) \<and>
      watchlist (snd (snd (removeTicker ticker m reload cs))) = watchlist (snd cs)"
    if "m = Response status (Some v)" "ok status" "fetchJSON reload = Inl e"
    using c1 [OF that(1,2)] that(3) by (simp add: useWatchlist_load_watchlist)
  have c4: "addTicker ticker name m reload cs =
        ([Request (js ''POST'') (js ''/api/watchlist'')
            (JObj [(js ''ticker'', JStr ticker), (js ''name'', JStr name)])],
         (fst cs @ [(''Failed to add ticker:'', e')], snd cs)) \<and>
      removeTicker ticker m reload cs =
        ([Request (js ''DELETE'') (js ''/api/watchlist/'' @ ticker) JUndefined],
         (fst cs @ [(''Failed to remove ticker:'', e')], snd cs))"
    if "m = Rejected \<and> e' = NetworkFailure \<or>
        m = Response status body \<and> \<not> ok status \<and> e' = ApiError status \<or>
        m = Response status None \<and> ok status \<and> e' = InvalidJson"
  proof -
    from that have "fetchJSON m = Inl e'" by (auto simp: fetchJSON_cases)
    then show ?thesis by (simp add: addTicker_failed removeTicker_failed)
  qed
  note c5 = watchlist_run_watchlist [of ops cs]
  show ?thesis
    apply (rule conjI, intro impI, elim conjE, erule (1) c1)
    apply (rule conjI, intro impI, elim conjE, erule (2) c2)
    apply (rule conjI, intro impI, elim conjE, erule (2) c3)
    apply (rule conjI, intro impI, erule c4)
    apply (rule c5)
    done
qed

theorem watchlist_mutation_reloads_or_keeps_witness:
  "ok 201 \<and>
   fetchJSON (Response 200 (Some [1, 2, 3 :: nat])) = Inr [1, 2, 3] \<and>
   watchlist (snd (snd (addTicker (js ''BHP.AX'') (js ''BHP.AX'') (Response 201 (Some JNull))
                          (Response 200 (Some [1, 2, 3])) ex_store))) = [1, 2, 3] \<and>
   \<not> ok 500 \<and>
   removeTicker (js ''BHP.AX'') (Response 500 None) (Response 200 (Some [1])) ex_store =
     ([Request (js ''DELETE'') (js ''/api/watchlist/BHP.AX'') JUndefined],
      ([(''Failed to remove ticker:'', ApiError 500)],
       \<lparr>watchlist = [1, 2], watchlistLoading = False\<rparr>)) \<and>
   addTicker (js ''BHP.AX'') (js ''BHP.AX'') (Response 204 None) (Response 200 (Some [1]))
       ex_store =
     ([Request (js ''POST'') (js ''/api/watchlist'')
         (JObj [(js ''ticker'', JStr (js ''BHP.AX'')), (js ''name'', JStr (js ''BHP.AX''))])],
      ([(''Failed to add ticker:'', InvalidJson)],
       \<lparr>watchlist = [1, 2], watchlistLoading = False\<rparr>))"
proof -
  have m: "ok 201" by (simp add: ok_def)
  have r: "fetchJSON (Response 200 (Some [1, 2, 3 :: nat])) = Inr [1, 2, 3]"
    by (simp add: ok_def)
  have f: "\<not> ok 500" by (simp add: ok_def)
  have n: "ok 204" by (simp add: ok_def)
  note t1 = watchlist_mutation_reloads_or_keeps [where m = "Response 201 (Some JNull)"
        and status = 201 and v = JNull and reload = "Response 200 (Some [1, 2, 3])"
        and data = "[1, 2, 3]" and ticker = "js ''BHP.AX''" and name = "js ''BHP.AX''"
        and cs = ex_store]
  have a: "watchlist (snd (snd (addTicker (js ''BHP.AX'') (js ''BHP.AX'')
                          (Response 201 (Some JNull))
                          (Response 200 (Some [1, 2, 3])) ex_store))) = [1, 2, 3]"
    using t1 [THEN conjunct2, THEN conjunct1] m r by simp
  note t2 = watchlist_mutation_reloads_or_keeps [where m = "Response 500 None"
        and status = 500 and body = None and e' = "ApiError 500"
        and reload = "Response 200 (Some [1])" and ticker = "js ''BHP.AX''"
        and name = "js ''BHP.AX''" and cs = ex_store]
  have "removeTicker (js ''BHP.AX'') (Response 500 None) (Response 200 (Some [1])) ex_store =
     ([Request (js ''DELETE'') (js ''/api/watchlist/'' @ js ''BHP.AX'') JUndefined],
      (fst ex_store @ [(''Failed to remove ticker:'', ApiError 500)], snd ex_store))"
    using t2 [THEN conjunct2, THEN conjunct2, THEN conjunct2, THEN conjunct1] f
    by simp
  then have b: "removeTicker (js ''BHP.AX'') (Response 500 None) (Response 200 (Some [1]))
      ex_store =
     ([Request (js ''DELETE'') (js ''/api/watchlist/BHP.AX'') JUndefined],
      ([(''Failed to remove ticker:'', ApiError 500)],
       \<lparr>watchlist = [1, 2], watchlistLoading = False\<rparr>))"
    by (simp add: ex_store_def js_def)
  note t3 = watchlist_mutation_reloads_or_keeps [where m = "Response 204 None"
        and status = 204 and e' = InvalidJson and reload = "Response 200 (Some [1])"
        and ticker = "js ''BHP.AX''" and name = "js ''BHP.AX''" and cs = ex_store]
  have "addTicker (js ''BHP.AX'') (js ''BHP.AX'') (Response 204 None) (Response 200 (Some [1]))
       ex_store =
     ([Request (js ''POST'') (js ''/api/watchlist'')
         (JObj [(js ''ticker'', JStr (js ''BHP.AX'')), (js ''name'', JStr (js ''BHP.AX''))])],
      (fst ex_store @ [(''Failed to add ticker:'', InvalidJson)], snd ex_store))"
    using t3 [THEN conjunct2, THEN conjunct2, THEN conjunct2, THEN conjunct1] n
    by simp
  then have c: "addTicker (js ''BHP.AX'') (js ''BHP.AX'') (Response 204 None)
       (Response 200 (Some [1])) ex_store =
     ([Request (js ''POST'') (js ''/api/watchlist'')
         (JObj [(js ''ticker'', JStr (js ''BHP.AX'')), (js ''name'', JStr (js ''BHP.AX''))])],
      ([(''Failed to add ticker:'', InvalidJson)],
       \<lparr>watchlist = [1, 2], watchlistLoading = False\<rparr>))"
    by (simp add: ex_store_def)
  from m r a f b c show ?thesis by blast
qed

section \<open>Teardown of a polling effect\<close>








lemma poller_step_Rerender_changed:
  "mounted p \<Longrightarrow> d \<noteq> deps p \<Longrightarrow>
   poller_step ld p (Rerender d) =
     p\<lparr>deps := d, timer := True, generation := generation p + 1,
       inflight := inflight p @ [generation p + 1]\<rparr>"
  by (simp add: effect_run_def effect_cleanup_def)




end
